theory Spec2Isabelle
  imports Main "HOL-Library.Sublist"
begin

section \<open>Python values used by \<open>main.py\<close>\<close>

text \<open>
  A Python \<open>str\<close> is a sequence of Unicode code points, and \<open>s[1:]\<close> drops one code
  point. The model therefore takes a string to be the list of its code points; an ASCII
  literal of the source is written \<open>ascii ''...''\<close>.
\<close>

type_synonym pystr = "nat list"

definition ascii :: "string \<Rightarrow> pystr" where
  "ascii cs = map of_char cs"

text \<open>The symbols that prefix the diagnostics of the source, by code point.\<close>

definition shoe :: pystr where "shoe = [128095]"
definition no_entry :: pystr where "no_entry = [9940]"
definition file_folder :: pystr where "file_folder = [128193]"
definition card_dividers :: pystr where "card_dividers = [128450, 65039]"
definition computer :: pystr where "computer = [128187]"
definition runner :: pystr where "runner = [127939]"
definition memo :: pystr where "memo = [128221]"
definition card_file_box :: pystr where "card_file_box = [128451, 65039]"
definition page_facing_up :: pystr where "page_facing_up = [128196]"
definition paperclip :: pystr where "paperclip = [128206]"
definition incoming_envelope :: pystr where "incoming_envelope = [128232]"
definition closed_lock :: pystr where "closed_lock = [128274]"
definition open_lock :: pystr where "open_lock = [128275]"

text \<open>\<open>sep.join(xs)\<close>.\<close>

fun join :: "pystr \<Rightarrow> pystr list \<Rightarrow> pystr" where
  "join sep [] = []"
| "join sep [x] = x"
| "join sep (x # y # ys) = x @ sep @ join sep (y # ys)"

text \<open>\<open>str(n)\<close> for an \<open>int\<close>, as an f-string renders \<open>{response.status_code}\<close>.\<close>

fun str_nat :: "nat \<Rightarrow> pystr" where
  "str_nat n = (if n < 10 then [48 + n] else str_nat (n div 10) @ [48 + n mod 10])"

definition str_int :: "int \<Rightarrow> pystr" where
  "str_int i = (if i < 0 then 45 # str_nat (nat (- i)) else str_nat (nat i))"

text \<open>An f-string field whose value may be \<open>None\<close> renders it as \<open>None\<close>.\<close>

definition fmt_opt :: "pystr option \<Rightarrow> pystr" where
  "fmt_opt v = (case v of None \<Rightarrow> ascii ''None'' | Some t \<Rightarrow> t)"

text \<open>
  \<open>re.sub(pattern, repl, s)\<close> for a pattern without regular-expression metacharacters,
  which is what the configured \<open>localSyncFolder\<close> is: every leftmost, non-overlapping
  occurrence of the pattern is replaced. (The empty pattern matches at every position.)
\<close>

function re_sub :: "'a list \<Rightarrow> 'a list \<Rightarrow> 'a list \<Rightarrow> 'a list" where
  "re_sub pat repl s =
     (if pat = [] then (case s of [] \<Rightarrow> repl | c # cs \<Rightarrow> repl @ c # re_sub pat repl cs)
      else if s = [] then []
      else if prefix pat s then repl @ re_sub pat repl (drop (length pat) s)
      else hd s # re_sub pat repl (tl s))"
  by pat_completeness auto
termination
  by (relation "measure (\<lambda>(pat, repl, s). length s)") (auto simp: neq_Nil_conv)

declare re_sub.simps [simp del]

section \<open>Configuration (lines 30--49)\<close>

definition nextcloudWebdavFileRoot :: pystr where
  "nextcloudWebdavFileRoot = ascii ''remote.php/dav/files''"

definition nextcloudOcsShareApiRoot :: pystr where
  "nextcloudOcsShareApiRoot = ascii ''ocs/v2.php/apps/files_sharing/api/v1''"

definition nextcloudServer :: pystr where
  "nextcloudServer = ascii ''http://localhost:8080''"

definition localSyncFolder :: pystr where
  "localSyncFolder = ascii ''/home/user/Nextcloud''"

definition nextcloudUsername :: pystr where
  "nextcloudUsername = ascii ''admin''"

definition nextcloudPassword :: pystr where
  "nextcloudPassword = ascii ''admin''"

definition auth_global :: "pystr \<times> pystr" where
  \<comment> \<open>\<open>_auth\<close>, line 83\<close>
  "auth_global = (nextcloudUsername, nextcloudPassword)"

section \<open>Arguments, the outside world, and the state of a run\<close>

text \<open>
  \<open>args\<close> as \<open>parser.parse_args()\<close> returns it. argparse accepts an action only from
  \<open>choices\<close> (line 57).
\<close>

record args =
  arg_debug :: bool
  arg_action :: pystr
  arg_path :: pystr

definition choices :: "pystr list" where
  "choices = [ascii ''h'', ascii ''html-link'', ascii ''i'', ascii ''internal-link'',
              ascii ''l'', ascii ''lock'', ascii ''q'', ascii ''quick-album'',
              ascii ''u'', ascii ''unlock'']"

text \<open>A \<open>requests.Response\<close>: the two attributes the program reads.\<close>

record response =
  status_code :: int
  resp_text :: pystr

text \<open>
  \<open>if not response\<close> calls \<open>Response.__bool__\<close>, which returns \<open>Response.ok\<close>: true
  unless \<open>raise_for_status()\<close> raises, and that raises for a status code from 400 up to
  599 (client and server errors) and for no other.
\<close>

definition ok :: "response \<Rightarrow> bool" where
  "ok r = (\<not> (400 \<le> status_code r \<and> status_code r < 600))"

datatype pyval = PyStr pystr | PyInt int

datatype payload = NoData | RawData pystr | FormData "(pystr \<times> pyval) list"

text \<open>One call of \<open>requests.request\<close> / \<open>requests.post\<close>, with the arguments passed.\<close>

record request =
  req_method :: pystr
  req_url :: pystr
  req_auth :: "pystr \<times> pystr"
  req_headers :: "(pystr \<times> pystr) list"
  req_data :: payload

text \<open>
  An \<open>xml.etree\<close> element: its tag (a namespace in Clark notation, \<open>{uri}local\<close>), its
  text (\<open>None\<close> when there is none) and its children in document order.
\<close>

datatype xml = Element (tag: pystr) (elem_text: "pystr option") (children: "xml list")

text \<open>\<open>elem.iter()\<close>: the element and everything below it, in document order.\<close>

fun iter :: "xml \<Rightarrow> xml list" where
  "iter (Element t x cs) = Element t x cs # concat (map iter cs)"

text \<open>
  \<open>root.findtext('.//' + t)\<close> for a plain tag \<open>t\<close>: the path \<open>.//t\<close> selects the elements
  tagged \<open>t\<close> on all levels beneath \<open>root\<close> (not \<open>root\<close> itself), in document order;
  \<open>findtext\<close> takes the first, returns its text, the empty string when the element has
  no text, and \<open>None\<close> when no element matches.
\<close>

definition descendants :: "xml \<Rightarrow> xml list" where
  "descendants root = concat (map iter (children root))"

definition findtext :: "xml \<Rightarrow> pystr \<Rightarrow> pystr option" where
  "findtext root t =
     (case filter (\<lambda>x. tag x = t) (descendants root) of
        [] \<Rightarrow> None
      | x # _ \<Rightarrow> Some (case elem_text x of None \<Rightarrow> [] | Some v \<Rightarrow> v))"

text \<open>
  What the program reads from outside: the filesystem (\<open>os.path.exists\<close>,
  \<open>os.path.realpath\<close>), the usage line of the argument parser, the server
  (\<open>Inl e\<close>: the call raised a \<open>RequestException\<close> whose \<open>str\<close> is \<open>e\<close>), and the XML
  parser (\<open>None\<close>: \<open>cET.fromstring\<close> raised \<open>ParseError\<close>).
\<close>

record env =
  os_path_exists :: "pystr \<Rightarrow> bool"
  os_path_realpath :: "pystr \<Rightarrow> pystr"
  format_usage :: pystr
  send :: "request \<Rightarrow> pystr + response"
  fromstring :: "pystr \<Rightarrow> xml option"

text \<open>
  What a run has done so far: the lines printed on standard output and on the error
  stream, and the requests issued, each in order.
\<close>

record io =
  out :: "pystr list"
  err :: "pystr list"
  sent :: "request list"

definition io_init :: io where
  "io_init = \<lparr>out = [], err = [], sent = []\<rparr>"

text \<open>
  How a run stops early: \<open>sys.exit(n)\<close>, or an exception nobody catches (Python then
  prints a traceback, which the model does not record, and exits with code 1).
\<close>

datatype exn = ParseError | UnboundLocalError

datatype stop = SysExit int | Uncaught exn

definition exit_code :: "stop + unit \<Rightarrow> int" where
  "exit_code r = (case r of Inr _ \<Rightarrow> 0 | Inl (SysExit n) \<Rightarrow> n | Inl (Uncaught _) \<Rightarrow> 1)"

definition print_out :: "pystr \<Rightarrow> io \<Rightarrow> io" where
  "print_out m s = s\<lparr>out := out s @ [m]\<rparr>"

definition print_err :: "pystr \<Rightarrow> io \<Rightarrow> io" where
  "print_err m s = s\<lparr>err := err s @ [m]\<rparr>"

definition debug :: "args \<Rightarrow> pystr \<Rightarrow> io \<Rightarrow> io" where
  \<comment> \<open>lines 61--63\<close>
  "debug a msg s = (if arg_debug a then print_err msg s else s)"

definition issue :: "request \<Rightarrow> io \<Rightarrow> io" where
  "issue r s = s\<lparr>sent := sent s @ [r]\<rparr>"

definition and_then ::
  "(stop + 'a) \<times> io \<Rightarrow> ('a \<Rightarrow> io \<Rightarrow> (stop + 'b) \<times> io) \<Rightarrow> (stop + 'b) \<times> io" where
  "and_then m f = (case m of (Inl x, s) \<Rightarrow> (Inl x, s) | (Inr v, s) \<Rightarrow> f v s)"

section \<open>The program\<close>

subsection \<open>Path resolution (lines 72--81)\<close>

definition relativePathOnly :: "pystr \<Rightarrow> pystr" where
  \<comment> \<open>line 76: \<open>re.sub(localSyncFolder, '', realpath)[1:]\<close>\<close>
  "relativePathOnly realpath = drop 1 (re_sub localSyncFolder [] realpath)"

definition fileurl_of :: "pystr \<Rightarrow> pystr" where
  \<comment> \<open>line 80: \<open>_fileurl\<close>\<close>
  "fileurl_of rel =
     join (ascii ''/'') [nextcloudServer, nextcloudWebdavFileRoot, nextcloudUsername, rel]"

text \<open>
  The relative path as the specification words it: the resolved path with the sync-root
  prefix and one leading separator removed. It is the reference that
  \<open>relativePathOnly\<close> is compared with, and no part of the program.
\<close>

definition under_sync_root :: "pystr \<Rightarrow> bool" where
  "under_sync_root p = (p = localSyncFolder \<or> prefix (localSyncFolder @ ascii ''/'') p)"

definition spec_relative_path :: "pystr \<Rightarrow> pystr" where
  "spec_relative_path p = drop 1 (drop (length localSyncFolder) p)"

subsection \<open>Reports shared by the remote operations\<close>

definition http_report :: "pystr \<Rightarrow> response \<Rightarrow> pystr" where
  \<comment> \<open>lines 104, 107, 114, 142, 145, 169, 172, after the leading symbol\<close>
  "http_report mark r =
     mark @ ascii '' HTTP response code '' @ str_int (status_code r)
       @ ascii ''. Response text: '' @ resp_text r"

subsection \<open>\<open>getFileId\<close> (lines 85--117)\<close>

definition propfindBody :: pystr where
  \<open>propfindBody =
     ascii ''<?xml version="1.0" encoding="UTF-8"?>'' @ [10] @
     ascii ''    <d:propfind xmlns:d="DAV:">'' @ [10] @
     ascii ''      <d:prop xmlns:oc="http://owncloud.org/ns">'' @ [10] @
     ascii ''        <oc:fileid/>'' @ [10] @
     ascii ''      </d:prop>'' @ [10] @
     ascii ''    </d:propfind>''\<close>

definition propfind_request :: "pystr \<times> pystr \<Rightarrow> pystr \<Rightarrow> request" where
  \<comment> \<open>line 96\<close>
  "propfind_request auth fileurl =
     \<lparr>req_method = ascii ''PROPFIND'', req_url = fileurl, req_auth = auth,
      req_headers = [], req_data = RawData propfindBody\<rparr>"

definition fileid_tag :: pystr where
  "fileid_tag = ascii ''{http://owncloud.org/ns}fileid''"

definition getFileId ::
  "env \<Rightarrow> args \<Rightarrow> pystr \<times> pystr \<Rightarrow> pystr \<Rightarrow> io \<Rightarrow> (stop + pystr) \<times> io" where
  "getFileId e a auth fileurl s0 =
     (let s1 = debug a (runner @ ascii '' fetching internal file ID...'') s0;
          s2 = issue (propfind_request auth fileurl) s1
      in case send e (propfind_request auth fileurl) of
           Inl ex \<Rightarrow>
             (Inl (SysExit 1), print_err (no_entry @ ascii '' PROPFIND request failed: '' @ ex) s2)
         | Inr response \<Rightarrow>
             if \<not> ok response
             then (Inl (SysExit 1), print_err (http_report no_entry response) s2)
             else
               let s3 = debug a (http_report memo response) s2
               in case fromstring e (resp_text response) of
                    None \<Rightarrow> (Inl (Uncaught ParseError), s3)
                  | Some root \<Rightarrow>
                      let fileId = findtext root fileid_tag;
                          s4 = debug a (card_file_box @ ascii '' fileId is '' @ fmt_opt fileId) s3
                      in case fileId of
                           None \<Rightarrow>
                             (Inl (SysExit 1), print_err (http_report no_entry response) s4)
                         | Some v \<Rightarrow> (Inr v, s4))"

subsection \<open>\<open>lockOrUnlock\<close> (lines 119--145)\<close>

text \<open>
  Lines 120--125 bind the local variable \<open>method\<close>; \<open>None\<close> stands for the variable left
  unbound, which the \<open>else\<close> branch does after printing, without leaving the function.
\<close>

definition bind_method :: "pystr \<Rightarrow> io \<Rightarrow> pystr option \<times> io" where
  "bind_method action s =
     (if action = ascii ''lock'' then (Some (ascii ''LOCK''), s)
      else if action = ascii ''unlock'' then (Some (ascii ''UNLOCK''), s)
      else (None, print_err (no_entry @ ascii '' internal error. action='' @ action) s))"

definition lock_request :: "pystr \<Rightarrow> pystr \<Rightarrow> request" where
  \<comment> \<open>line 132; the call passes the global \<open>_auth\<close>, not its parameter \<open>auth\<close>\<close>
  "lock_request meth fileurl =
     \<lparr>req_method = meth, req_url = fileurl, req_auth = auth_global,
      req_headers = [(ascii ''X-User-Lock'', ascii ''1'')], req_data = NoData\<rparr>"

definition lock_failed :: "pystr \<Rightarrow> pystr" where
  \<comment> \<open>line 140\<close>
  "lock_failed action =
     no_entry @ ascii '' '' @ action @
     ascii '' failed. Is the Temporary files lock app installed? If attempting to lock, is it already locked by someone/something else? If attempting to unlock, is the path actually locked?''"

text \<open>
  Line 128 formats \<open>{method}\<close> before \<open>debug\<close> is called, with or without \<open>--debug\<close>: an
  unbound \<open>method\<close> raises \<open>UnboundLocalError\<close> there, which nothing catches.
\<close>

definition lockOrUnlock ::
  "env \<Rightarrow> args \<Rightarrow> pystr \<Rightarrow> pystr \<times> pystr \<Rightarrow> pystr \<Rightarrow> io \<Rightarrow> (stop + unit) \<times> io" where
  "lockOrUnlock e a action auth fileurl s0 =
     (case bind_method action s0 of
        (None, s1) \<Rightarrow> (Inl (Uncaught UnboundLocalError), s1)
      | (Some meth, s1) \<Rightarrow>
          let s2 = debug a (page_facing_up @ ascii '' request: '' @ meth @ ascii '' '' @ fileurl) s1;
              s3 = debug a (paperclip @ ascii '' headers: {'X-User-Lock': '1'}'') s2;
              s4 = issue (lock_request meth fileurl) s3
          in case send e (lock_request meth fileurl) of
               Inl ex \<Rightarrow> (Inl (SysExit 1), print_err (no_entry @ ascii '' request failed: '' @ ex) s4)
             | Inr response \<Rightarrow>
                 if \<not> ok response
                 then (Inl (SysExit 1),
                       print_err (http_report incoming_envelope response)
                         (print_err (page_facing_up @ ascii '' HTTP request was '' @ meth @ ascii '' '' @ fileurl)
                           (print_err (lock_failed action) s4)))
                 else (Inr (), debug a (http_report memo response) s4))"

subsection \<open>\<open>renderInternalUrl\<close> (lines 147--148)\<close>

definition renderInternalUrl :: "pystr \<Rightarrow> pystr \<Rightarrow> pystr" where
  "renderInternalUrl server fileId = server @ ascii ''/f/'' @ fileId"

subsection \<open>\<open>sharePath\<close> (lines 150--182)\<close>

record share_data =
  publicShareUrl :: "pystr option"
  fileId :: "pystr option"
  largeImageUrl :: pystr
  previewImageUrl :: pystr

definition sharesUrl :: pystr where
  \<comment> \<open>line 153\<close>
  "sharesUrl = join (ascii ''/'') [nextcloudServer, nextcloudOcsShareApiRoot, ascii ''shares'']"

definition share_request :: "pystr \<times> pystr \<Rightarrow> pystr \<Rightarrow> request" where
  \<comment> \<open>lines 154--161\<close>
  "share_request auth rootedServerPath =
     \<lparr>req_method = ascii ''POST'', req_url = sharesUrl, req_auth = auth,
      req_headers = [(ascii ''OCS-APIRequest'', ascii ''true'')],
      req_data = FormData [(ascii ''attributes'', PyStr (ascii ''[]'')),
                           (ascii ''path'', PyStr rootedServerPath),
                           (ascii ''shareType'', PyInt 3)]\<rparr>"

definition preview_url :: "pystr option \<Rightarrow> pystr option \<Rightarrow> pystr \<Rightarrow> pystr" where
  \<comment> \<open>lines 180 and 181, which differ in the size only\<close>
  "preview_url token fid dim =
     join (ascii ''/'')
       [nextcloudServer,
        ascii ''apps/files_sharing/publicpreview/'' @ fmt_opt token @ ascii ''?file=/&fileId=''
          @ fmt_opt fid @ ascii ''&x='' @ dim @ ascii ''&y='' @ dim @ ascii ''&a=true'']"

definition sharePath ::
  "env \<Rightarrow> args \<Rightarrow> pystr \<times> pystr \<Rightarrow> pystr \<Rightarrow> io \<Rightarrow> (stop + share_data) \<times> io" where
  "sharePath e a auth rootedServerPath s0 =
     (let s1 = debug a (runner @ ascii '' share '' @ rootedServerPath @ ascii ''...'') s0;
          s2 = issue (share_request auth rootedServerPath) s1
      in case send e (share_request auth rootedServerPath) of
           Inl ex \<Rightarrow> (Inl (SysExit 1), print_err (no_entry @ ascii '' POST request failed: '' @ ex) s2)
         | Inr response \<Rightarrow>
             if \<not> ok response
             then (Inl (SysExit 1), print_err (http_report no_entry response) s2)
             else
               let s3 = debug a (http_report memo response) s2
               in case fromstring e (resp_text response) of
                    None \<Rightarrow> (Inl (Uncaught ParseError), s3)
                  | Some root \<Rightarrow>
                      let fid = findtext root (ascii ''file_source'');
                          token = findtext root (ascii ''token'')
                      in (Inr \<lparr>publicShareUrl = findtext root (ascii ''url''),
                                fileId = fid,
                                largeImageUrl = preview_url token fid (ascii ''4096''),
                                previewImageUrl = preview_url token fid (ascii ''300'')\<rparr>, s3))"

subsection \<open>Dispatch on the action (lines 184--209)\<close>

definition do_internal_link :: "env \<Rightarrow> args \<Rightarrow> pystr \<Rightarrow> io \<Rightarrow> (stop + unit) \<times> io" where
  "do_internal_link e a fileurl s =
     (if arg_action a \<in> set [ascii ''i'', ascii ''internal-link'']
      then and_then (getFileId e a auth_global fileurl s)
             (\<lambda>fid s'. (Inr (), print_out (renderInternalUrl nextcloudServer fid) s'))
      else (Inr (), s))"

definition do_lock :: "env \<Rightarrow> args \<Rightarrow> pystr \<Rightarrow> io \<Rightarrow> (stop + unit) \<times> io" where
  "do_lock e a fileurl s =
     (if arg_action a \<in> set [ascii ''l'', ascii ''lock'']
      then and_then (lockOrUnlock e a (ascii ''lock'') auth_global fileurl
                       (debug a (runner @ ascii '' locking...'') s))
             (\<lambda>_ s'. (Inr (), debug a (closed_lock @ ascii '' success!'') s'))
      else (Inr (), s))"

definition do_unlock :: "env \<Rightarrow> args \<Rightarrow> pystr \<Rightarrow> io \<Rightarrow> (stop + unit) \<times> io" where
  "do_unlock e a fileurl s =
     (if arg_action a \<in> set [ascii ''u'', ascii ''unlock'']
      then and_then (lockOrUnlock e a (ascii ''unlock'') auth_global fileurl
                       (debug a (runner @ ascii '' unlocking...'') s))
             (\<lambda>_ s'. (Inr (), debug a (open_lock @ ascii '' success!'') s'))
      else (Inr (), s))"

definition html_anchor :: "pystr \<Rightarrow> pystr \<Rightarrow> pystr" where
  \<comment> \<open>line 201\<close>
  \<open>html_anchor internalUrl rel =
     ascii ''<a href="'' @ internalUrl @ ascii ''">'' @ rel @ ascii ''</a>''\<close>

definition do_html_link :: "env \<Rightarrow> args \<Rightarrow> pystr \<Rightarrow> pystr \<Rightarrow> io \<Rightarrow> (stop + unit) \<times> io" where
  "do_html_link e a rel fileurl s =
     (if arg_action a \<in> set [ascii ''h'', ascii ''html-link'']
      then and_then (getFileId e a auth_global fileurl s)
             (\<lambda>fid s'. (Inr (), print_out (html_anchor (renderInternalUrl nextcloudServer fid) rel) s'))
      else (Inr (), s))"

definition album_anchor :: "pystr \<Rightarrow> pystr \<Rightarrow> pystr" where
  \<comment> \<open>line 209\<close>
  \<open>album_anchor large preview =
     ascii ''<a href="'' @ large @ ascii ''"><img src="'' @ preview @ ascii ''"></a>''\<close>

definition do_quick_album :: "env \<Rightarrow> args \<Rightarrow> pystr \<Rightarrow> io \<Rightarrow> (stop + unit) \<times> io" where
  "do_quick_album e a rel s =
     (if arg_action a \<in> set [ascii ''q'', ascii ''quick-album'']
      then and_then (sharePath e a auth_global (ascii ''/'' @ rel)
                       (debug a (runner @ ascii '' quick albuming...'') s))
             (\<lambda>d s'. (Inr (), print_out (album_anchor (largeImageUrl d) (previewImageUrl d)) s'))
      else (Inr (), s))"

definition dispatch :: "env \<Rightarrow> args \<Rightarrow> pystr \<Rightarrow> pystr \<Rightarrow> io \<Rightarrow> (stop + unit) \<times> io" where
  "dispatch e a rel fileurl s =
     and_then
       (and_then
          (and_then
             (and_then (do_internal_link e a fileurl s) (\<lambda>_. do_lock e a fileurl))
             (\<lambda>_. do_unlock e a fileurl))
          (\<lambda>_. do_html_link e a rel fileurl))
       (\<lambda>_. do_quick_album e a rel)"

subsection \<open>The script from line 65 on\<close>

definition path_missing :: pystr where
  \<comment> \<open>line 68\<close>
  "path_missing = no_entry @ ascii '' Error: path does not exist''"

definition main :: "env \<Rightarrow> args \<Rightarrow> (stop + unit) \<times> io" where
  "main e a =
     (let s1 = debug a (shoe @ ascii '' action is '' @ arg_action a) io_init
      in if \<not> os_path_exists e (arg_path a)
         then (Inl (SysExit 1), print_out (format_usage e) (print_err path_missing s1))
         else
           let realpath = os_path_realpath e (arg_path a);
               s2 = debug a (file_folder @ ascii '' absolute path is '' @ realpath) s1;
               rel = relativePathOnly realpath;
               s3 = debug a (card_dividers @ ascii '' relative path is '' @ rel) s2;
               fileurl = fileurl_of rel;
               s4 = debug a (computer @ ascii '' WebDAV path is '' @ fileurl) s3
           in dispatch e a rel fileurl s4)"

section \<open>Concrete inputs\<close>

text \<open>
  Response bodies for running the program on concrete inputs, each with the tree that
  \<open>cET.fromstring\<close> builds from it.
\<close>

text \<open>A share response with token \<open>tok1\<close> and file source \<open>99\<close>.\<close>

definition share_body :: pystr where
  \<open>share_body =
     ascii ''<?xml version="1.0"?><ocs><meta><status>ok</status></meta><data><file_source>99</file_source><token>tok1</token><url>http://localhost:8080/s/tok1</url></data></ocs>''\<close>

definition share_tree :: xml where
  "share_tree =
     Element (ascii ''ocs'') None
       [Element (ascii ''meta'') None [Element (ascii ''status'') (Some (ascii ''ok'')) []],
        Element (ascii ''data'') None
          [Element (ascii ''file_source'') (Some (ascii ''99'')) [],
           Element (ascii ''token'') (Some (ascii ''tok1'')) [],
           Element (ascii ''url'') (Some (ascii ''http://localhost:8080/s/tok1'')) []]]"

text \<open>A share response that lacks the three fields.\<close>

definition empty_share_body :: pystr where
  \<open>empty_share_body =
     ascii ''<?xml version="1.0"?><ocs><meta><status>ok</status></meta><data/></ocs>''\<close>

definition empty_share_tree :: xml where
  "empty_share_tree =
     Element (ascii ''ocs'') None
       [Element (ascii ''meta'') None [Element (ascii ''status'') (Some (ascii ''ok'')) []],
        Element (ascii ''data'') None []]"

text \<open>A multistatus response for one resource, with file identifier \<open>42\<close>.\<close>

definition propfind_body :: pystr where
  \<open>propfind_body =
     ascii ''<d:multistatus xmlns:d="DAV:" xmlns:oc="http://owncloud.org/ns"><d:response><d:href>/remote.php/dav/files/admin/photos/cat.jpg</d:href><d:propstat><d:prop><oc:fileid>42</oc:fileid></d:prop></d:propstat></d:response></d:multistatus>''\<close>

definition propfind_tree :: xml where
  "propfind_tree =
     Element (ascii ''{DAV:}multistatus'') None
       [Element (ascii ''{DAV:}response'') None
          [Element (ascii ''{DAV:}href'') (Some (ascii ''/remote.php/dav/files/admin/photos/cat.jpg'')) [],
           Element (ascii ''{DAV:}propstat'') None
             [Element (ascii ''{DAV:}prop'') None [Element fileid_tag (Some (ascii ''42'')) []]]]]"

text \<open>
  A multistatus response for a folder and one file in it: two resources, each with its
  own file identifier.
\<close>

definition folder_body :: pystr where
  \<open>folder_body =
     ascii ''<d:multistatus xmlns:d="DAV:" xmlns:oc="http://owncloud.org/ns"><d:response><d:prop><oc:fileid>1</oc:fileid></d:prop></d:response><d:response><d:prop><oc:fileid>2</oc:fileid></d:prop></d:response></d:multistatus>''\<close>

definition folder_tree :: xml where
  "folder_tree =
     Element (ascii ''{DAV:}multistatus'') None
       [Element (ascii ''{DAV:}response'') None
          [Element (ascii ''{DAV:}prop'') None [Element fileid_tag (Some (ascii ''1'')) []]],
        Element (ascii ''{DAV:}response'') None
          [Element (ascii ''{DAV:}prop'') None [Element fileid_tag (Some (ascii ''2'')) []]]]"

definition parse_sample :: "pystr \<Rightarrow> xml option" where
  "parse_sample body =
     (if body = share_body then Some share_tree
      else if body = empty_share_body then Some empty_share_tree
      else if body = propfind_body then Some propfind_tree
      else if body = folder_body then Some folder_tree
      else None)"

text \<open>
  A small world: every path exists or not as \<open>ex\<close> says and resolves to \<open>rp\<close>, every
  request is answered by \<open>ans\<close>, and the bodies above parse to their trees (any other body
  is taken as not well-formed).
\<close>

definition world :: "bool \<Rightarrow> pystr \<Rightarrow> pystr + response \<Rightarrow> env" where
  "world ex rp ans =
     \<lparr>os_path_exists = (\<lambda>_. ex), os_path_realpath = (\<lambda>_. rp),
      format_usage = ascii ''usage: main.py [-h] [-d] action path'' @ [10],
      send = (\<lambda>_. ans), fromstring = parse_sample\<rparr>"

definition run_args :: "pystr \<Rightarrow> pystr \<Rightarrow> args" where
  "run_args act p = \<lparr>arg_debug = False, arg_action = act, arg_path = p\<rparr>"

definition answer :: "int \<Rightarrow> pystr \<Rightarrow> pystr + response" where
  "answer code body = Inr \<lparr>status_code = code, resp_text = body\<rparr>"

text \<open>A path under the sync root that holds the sync-root string once more.\<close>

definition nested_path :: pystr where
  "nested_path = ascii ''/home/user/Nextcloud/bak/home/user/Nextcloud/x.txt''"

text \<open>A path beside the sync root, not under it.\<close>

definition sibling_path :: pystr where
  "sibling_path = ascii ''/home/user/NextcloudOld/x.txt''"

text \<open>A path outside the sync root that holds the sync-root string twice.\<close>

definition mounted_path :: pystr where
  "mounted_path = ascii ''/mnt/home/user/Nextcloud/a/home/user/Nextcloud/b.txt''"

text \<open>A path that does not hold the sync-root string at all.\<close>

definition foreign_path :: pystr where
  "foreign_path = ascii ''/etc/hosts''"

section \<open>Basic facts about the operations\<close>

lemma debug_out [simp]: "out (debug a m s) = out s"
  by (simp add: debug_def print_err_def)

lemma debug_sent [simp]: "sent (debug a m s) = sent s"
  by (simp add: debug_def print_err_def)

lemma print_err_out [simp]: "out (print_err m s) = out s"
  by (simp add: print_err_def)

lemma print_err_sent [simp]: "sent (print_err m s) = sent s"
  by (simp add: print_err_def)

lemma print_err_err [simp]: "err (print_err m s) = err s @ [m]"
  by (simp add: print_err_def)

lemma print_out_out [simp]: "out (print_out m s) = out s @ [m]"
  by (simp add: print_out_def)

lemma print_out_sent [simp]: "sent (print_out m s) = sent s"
  by (simp add: print_out_def)

lemma print_out_err [simp]: "err (print_out m s) = err s"
  by (simp add: print_out_def)

lemma issue_out [simp]: "out (issue r s) = out s"
  by (simp add: issue_def)

lemma issue_err [simp]: "err (issue r s) = err s"
  by (simp add: issue_def)

lemma issue_sent [simp]: "sent (issue r s) = sent s @ [r]"
  by (simp add: issue_def)

lemma io_init_simps [simp]: "out io_init = []" "err io_init = []" "sent io_init = []"
  by (simp_all add: io_init_def)

lemma and_then_Inr: "and_then (Inr v, s) f = f v s"
  by (simp add: and_then_def)

lemma getFileId_sent:
  "sent (snd (getFileId e a auth url s)) = sent s @ [propfind_request auth url]"
  by (simp add: getFileId_def Let_def split: sum.splits option.splits)

lemma getFileId_out: "out (snd (getFileId e a auth url s)) = out s"
  by (simp add: getFileId_def Let_def split: sum.splits option.splits)

lemma getFileId_found:
  assumes "send e (propfind_request auth url) = Inr r" "ok r"
    "fromstring e (resp_text r) = Some root" "findtext root fileid_tag = Some v"
  shows "fst (getFileId e a auth url s) = Inr v"
  using assms by (simp add: getFileId_def Let_def)

lemma getFileId_absent:
  assumes "send e (propfind_request auth url) = Inr r" "ok r"
    "fromstring e (resp_text r) = Some root" "findtext root fileid_tag = None"
  shows "fst (getFileId e a auth url s) = Inl (SysExit 1)"
    and "last (err (snd (getFileId e a auth url s))) = http_report no_entry r"
  using assms by (simp_all add: getFileId_def Let_def)

lemma getFileId_refused:
  assumes "send e (propfind_request auth url) = Inr r" "\<not> ok r"
  shows "fst (getFileId e a auth url s) = Inl (SysExit 1)"
    and "last (err (snd (getFileId e a auth url s))) = http_report no_entry r"
  using assms by (simp_all add: getFileId_def Let_def)

lemma bind_method_lock: "bind_method (ascii ''lock'') s = (Some (ascii ''LOCK''), s)"
  by (simp add: bind_method_def)

lemma bind_method_unlock: "bind_method (ascii ''unlock'') s = (Some (ascii ''UNLOCK''), s)"
  by (simp add: bind_method_def ascii_def)

lemma lockOrUnlock_sent:
  "bind_method act s = (Some m, s') \<Longrightarrow>
   sent (snd (lockOrUnlock e a act auth url s)) = sent s' @ [lock_request m url]"
  by (simp add: lockOrUnlock_def Let_def split: sum.splits)

lemma lockOrUnlock_out: "out (snd (lockOrUnlock e a act auth url s)) = out s"
  by (auto simp: lockOrUnlock_def bind_method_def Let_def split: sum.splits option.splits prod.splits if_splits)

lemma lockOrUnlock_refused:
  assumes "bind_method act s = (Some m, s')" "send e (lock_request m url) = Inr r" "\<not> ok r"
  shows "fst (lockOrUnlock e a act auth url s) = Inl (SysExit 1)"
    and "lock_failed act \<in> set (err (snd (lockOrUnlock e a act auth url s)))"
  using assms by (simp_all add: lockOrUnlock_def Let_def)

lemma lockOrUnlock_accepted:
  assumes "bind_method act s = (Some m, s')" "send e (lock_request m url) = Inr r" "ok r"
  shows "fst (lockOrUnlock e a act auth url s) = Inr ()"
  using assms by (simp_all add: lockOrUnlock_def Let_def)

lemma and_then_unit: "and_then m (\<lambda>_ s. (Inr (), s)) = (m :: (stop + unit) \<times> io)"
  by (cases m) (auto simp: and_then_def split: sum.splits)

lemma group_i:
  "x \<in> set [ascii ''i'', ascii ''internal-link''] \<Longrightarrow>
   x \<notin> set [ascii ''l'', ascii ''lock''] \<and> x \<notin> set [ascii ''u'', ascii ''unlock'']
   \<and> x \<notin> set [ascii ''h'', ascii ''html-link''] \<and> x \<notin> set [ascii ''q'', ascii ''quick-album'']"
  by (auto simp: ascii_def)

lemma group_l:
  "x \<in> set [ascii ''l'', ascii ''lock''] \<Longrightarrow>
   x \<notin> set [ascii ''i'', ascii ''internal-link''] \<and> x \<notin> set [ascii ''u'', ascii ''unlock'']
   \<and> x \<notin> set [ascii ''h'', ascii ''html-link''] \<and> x \<notin> set [ascii ''q'', ascii ''quick-album'']"
  by (auto simp: ascii_def)

lemma group_u:
  "x \<in> set [ascii ''u'', ascii ''unlock''] \<Longrightarrow>
   x \<notin> set [ascii ''i'', ascii ''internal-link''] \<and> x \<notin> set [ascii ''l'', ascii ''lock'']
   \<and> x \<notin> set [ascii ''h'', ascii ''html-link''] \<and> x \<notin> set [ascii ''q'', ascii ''quick-album'']"
  by (auto simp: ascii_def)

lemma group_h:
  "x \<in> set [ascii ''h'', ascii ''html-link''] \<Longrightarrow>
   x \<notin> set [ascii ''i'', ascii ''internal-link''] \<and> x \<notin> set [ascii ''l'', ascii ''lock'']
   \<and> x \<notin> set [ascii ''u'', ascii ''unlock''] \<and> x \<notin> set [ascii ''q'', ascii ''quick-album'']"
  by (auto simp: ascii_def)

lemma group_q:
  "x \<in> set [ascii ''q'', ascii ''quick-album''] \<Longrightarrow>
   x \<notin> set [ascii ''i'', ascii ''internal-link''] \<and> x \<notin> set [ascii ''l'', ascii ''lock'']
   \<and> x \<notin> set [ascii ''u'', ascii ''unlock''] \<and> x \<notin> set [ascii ''h'', ascii ''html-link'']"
  by (auto simp: ascii_def)

lemma skip_internal_link:
  "arg_action a \<notin> set [ascii ''i'', ascii ''internal-link''] \<Longrightarrow>
   do_internal_link e a url s = (Inr (), s)"
  by (simp only: do_internal_link_def if_False)

lemma skip_lock:
  "arg_action a \<notin> set [ascii ''l'', ascii ''lock''] \<Longrightarrow>
   do_lock e a url = (\<lambda>s. (Inr (), s))"
  by (rule ext) (simp only: do_lock_def if_False)

lemma skip_unlock:
  "arg_action a \<notin> set [ascii ''u'', ascii ''unlock''] \<Longrightarrow>
   do_unlock e a url = (\<lambda>s. (Inr (), s))"
  by (rule ext) (simp only: do_unlock_def if_False)

lemma skip_html_link:
  "arg_action a \<notin> set [ascii ''h'', ascii ''html-link''] \<Longrightarrow>
   do_html_link e a rel url = (\<lambda>s. (Inr (), s))"
  by (rule ext) (simp only: do_html_link_def if_False)

lemma skip_quick_album:
  "arg_action a \<notin> set [ascii ''q'', ascii ''quick-album''] \<Longrightarrow>
   do_quick_album e a rel = (\<lambda>s. (Inr (), s))"
  by (rule ext) (simp only: do_quick_album_def if_False)

lemma take_lock:
  "arg_action a \<in> set [ascii ''l'', ascii ''lock''] \<Longrightarrow>
   do_lock e a url = (\<lambda>s. and_then (lockOrUnlock e a (ascii ''lock'') auth_global url
                       (debug a (runner @ ascii '' locking...'') s))
             (\<lambda>_ s'. (Inr (), debug a (closed_lock @ ascii '' success!'') s')))"
  by (rule ext) (simp only: do_lock_def if_True)

lemma take_unlock:
  "arg_action a \<in> set [ascii ''u'', ascii ''unlock''] \<Longrightarrow>
   do_unlock e a url = (\<lambda>s. and_then (lockOrUnlock e a (ascii ''unlock'') auth_global url
                       (debug a (runner @ ascii '' unlocking...'') s))
             (\<lambda>_ s'. (Inr (), debug a (open_lock @ ascii '' success!'') s')))"
  by (rule ext) (simp only: do_unlock_def if_True)

lemma take_html_link:
  "arg_action a \<in> set [ascii ''h'', ascii ''html-link''] \<Longrightarrow>
   do_html_link e a rel url = (\<lambda>s. and_then (getFileId e a auth_global url s)
             (\<lambda>fid s'. (Inr (), print_out (html_anchor (renderInternalUrl nextcloudServer fid) rel) s')))"
  by (rule ext) (simp only: do_html_link_def if_True)

lemma take_quick_album:
  "arg_action a \<in> set [ascii ''q'', ascii ''quick-album''] \<Longrightarrow>
   do_quick_album e a rel = (\<lambda>s. and_then (sharePath e a auth_global (ascii ''/'' @ rel)
                       (debug a (runner @ ascii '' quick albuming...'') s))
             (\<lambda>d s'. (Inr (), print_out (album_anchor (largeImageUrl d) (previewImageUrl d)) s')))"
  by (rule ext) (simp only: do_quick_album_def if_True)

lemmas skips = skip_internal_link skip_lock skip_unlock skip_html_link skip_quick_album

lemma dispatch_internal_link:
  assumes "arg_action a \<in> set [ascii ''i'', ascii ''internal-link'']"
  shows "dispatch e a rel url s =
     and_then (getFileId e a auth_global url s)
       (\<lambda>fid s'. (Inr (), print_out (renderInternalUrl nextcloudServer fid) s'))"
  using group_i [OF assms] assms
  by (simp add: dispatch_def skips do_internal_link_def and_then_unit and_then_Inr del: set_simps)

lemma dispatch_lock:
  assumes "arg_action a \<in> set [ascii ''l'', ascii ''lock'']"
  shows "dispatch e a rel url s =
     and_then (lockOrUnlock e a (ascii ''lock'') auth_global url
                 (debug a (runner @ ascii '' locking...'') s))
       (\<lambda>_ s'. (Inr (), debug a (closed_lock @ ascii '' success!'') s'))"
  using group_l [OF assms] assms
  by (simp add: dispatch_def skips take_lock and_then_unit and_then_Inr del: set_simps)

lemma dispatch_unlock:
  assumes "arg_action a \<in> set [ascii ''u'', ascii ''unlock'']"
  shows "dispatch e a rel url s =
     and_then (lockOrUnlock e a (ascii ''unlock'') auth_global url
                 (debug a (runner @ ascii '' unlocking...'') s))
       (\<lambda>_ s'. (Inr (), debug a (open_lock @ ascii '' success!'') s'))"
  using group_u [OF assms] assms
  by (simp add: dispatch_def skips take_unlock and_then_unit and_then_Inr del: set_simps)

lemma dispatch_html_link:
  assumes "arg_action a \<in> set [ascii ''h'', ascii ''html-link'']"
  shows "dispatch e a rel url s =
     and_then (getFileId e a auth_global url s)
       (\<lambda>fid s'. (Inr (), print_out (html_anchor (renderInternalUrl nextcloudServer fid) rel) s'))"
  using group_h [OF assms] assms
  by (simp add: dispatch_def skips take_html_link and_then_unit and_then_Inr del: set_simps)

lemma dispatch_quick_album:
  assumes "arg_action a \<in> set [ascii ''q'', ascii ''quick-album'']"
  shows "dispatch e a rel url s =
     and_then (sharePath e a auth_global (ascii ''/'' @ rel)
                 (debug a (runner @ ascii '' quick albuming...'') s))
       (\<lambda>d s'. (Inr (), print_out (album_anchor (largeImageUrl d) (previewImageUrl d)) s'))"
  using group_q [OF assms] assms
  by (simp add: dispatch_def skips take_quick_album and_then_unit and_then_Inr del: set_simps)

lemma main_proceeds:
  assumes "os_path_exists e (arg_path a)"
  shows "\<exists>s. main e a = dispatch e a (relativePathOnly (os_path_realpath e (arg_path a)))
                 (fileurl_of (relativePathOnly (os_path_realpath e (arg_path a)))) s
             \<and> out s = [] \<and> sent s = [] \<and> path_missing \<notin> set (err s)"
  using assms
  by (auto simp: main_def Let_def debug_def path_missing_def no_entry_def shoe_def
      file_folder_def card_dividers_def computer_def)

lemma sharePath_sent:
  "sent (snd (sharePath e a auth p s)) = sent s @ [share_request auth p]"
  by (simp add: sharePath_def Let_def split: sum.splits option.splits)

lemma sharePath_parsed:
  assumes "send e (share_request auth p) = Inr r" "ok r" "fromstring e (resp_text r) = Some root"
  shows "fst (sharePath e a auth p s) =
           Inr \<lparr>publicShareUrl = findtext root (ascii ''url''),
                fileId = findtext root (ascii ''file_source''),
                largeImageUrl = preview_url (findtext root (ascii ''token''))
                                  (findtext root (ascii ''file_source'')) (ascii ''4096''),
                previewImageUrl = preview_url (findtext root (ascii ''token''))
                                  (findtext root (ascii ''file_source'')) (ascii ''300'')\<rparr>"
    and "out (snd (sharePath e a auth p s)) = out s"
  using assms by (simp_all add: sharePath_def Let_def)

lemma sharePath_out: "out (snd (sharePath e a auth p s)) = out s"
  by (simp add: sharePath_def Let_def split: sum.splits option.splits)

lemma fst_and_then:
  "fst m = Inr v \<Longrightarrow> and_then m f = f v (snd m)"
  by (cases m) (simp add: and_then_def)

lemma fst_and_then_Inl:
  "fst m = Inl x \<Longrightarrow> and_then m f = (Inl x, snd m)"
  by (cases m) (simp add: and_then_def)

lemma sent_and_then:
  "(\<And>v s. sent (snd (f v s)) = sent s) \<Longrightarrow> sent (snd (and_then m f)) = sent (snd m)"
  by (cases m) (auto simp: and_then_def split: sum.splits)

lemma err_and_then:
  "x \<notin> set (err (snd m)) \<Longrightarrow> (\<And>v s. x \<notin> set (err s) \<Longrightarrow> x \<notin> set (err (snd (f v s)))) \<Longrightarrow>
   x \<notin> set (err (snd (and_then m f)))"
  by (cases m) (auto simp: and_then_def split: sum.splits)

lemma path_missing_neq:
  "no_entry @ ascii '' PROPFIND request failed: '' @ ex \<noteq> path_missing"
  "no_entry @ ascii '' POST request failed: '' @ ex \<noteq> path_missing"
  "no_entry @ ascii '' request failed: '' @ ex \<noteq> path_missing"
  "http_report mark r \<noteq> path_missing"
  "runner @ t \<noteq> path_missing"
  "memo @ t \<noteq> path_missing"
  "card_file_box @ t \<noteq> path_missing"
  "page_facing_up @ t \<noteq> path_missing"
  "paperclip @ t \<noteq> path_missing"
  "incoming_envelope @ t \<noteq> path_missing"
  "closed_lock @ t \<noteq> path_missing"
  "open_lock @ t \<noteq> path_missing"
  "lock_failed (ascii ''lock'') \<noteq> path_missing"
  "lock_failed (ascii ''unlock'') \<noteq> path_missing"
  by (simp_all add: path_missing_def no_entry_def ascii_def http_report_def runner_def memo_def
      card_file_box_def page_facing_up_def paperclip_def incoming_envelope_def closed_lock_def
      open_lock_def lock_failed_def)

lemma getFileId_err:
  "path_missing \<notin> set (err s) \<Longrightarrow> path_missing \<notin> set (err (snd (getFileId e a auth url s)))"
  by (simp add: getFileId_def Let_def debug_def path_missing_neq [symmetric]
      split: sum.splits option.splits)

lemma lockOrUnlock_lock_err:
  "path_missing \<notin> set (err s) \<Longrightarrow>
   path_missing \<notin> set (err (snd (lockOrUnlock e a (ascii ''lock'') auth url s)))"
  by (simp add: lockOrUnlock_def bind_method_lock Let_def debug_def path_missing_neq [symmetric]
      split: sum.splits)

lemma lockOrUnlock_unlock_err:
  "path_missing \<notin> set (err s) \<Longrightarrow>
   path_missing \<notin> set (err (snd (lockOrUnlock e a (ascii ''unlock'') auth url s)))"
  by (simp add: lockOrUnlock_def bind_method_unlock Let_def debug_def path_missing_neq [symmetric]
      split: sum.splits)

lemma sharePath_err:
  "path_missing \<notin> set (err s) \<Longrightarrow> path_missing \<notin> set (err (snd (sharePath e a auth p s)))"
  by (simp add: sharePath_def Let_def debug_def path_missing_neq [symmetric]
      split: sum.splits option.splits)

lemma debug_err_keeps:
  "path_missing \<notin> set (err s) \<Longrightarrow> m \<noteq> path_missing \<Longrightarrow> path_missing \<notin> set (err (debug a m s))"
  by (auto simp: debug_def)

lemma main_sends:
  assumes "os_path_exists e (arg_path a)"
  shows "(arg_action a \<in> set [ascii ''i'', ascii ''internal-link''] \<longrightarrow>
            sent (snd (main e a)) = [propfind_request auth_global
              (fileurl_of (relativePathOnly (os_path_realpath e (arg_path a))))])"
    and "(arg_action a \<in> set [ascii ''h'', ascii ''html-link''] \<longrightarrow>
            sent (snd (main e a)) = [propfind_request auth_global
              (fileurl_of (relativePathOnly (os_path_realpath e (arg_path a))))])"
    and "(arg_action a \<in> set [ascii ''l'', ascii ''lock''] \<longrightarrow>
            sent (snd (main e a)) = [lock_request (ascii ''LOCK'')
              (fileurl_of (relativePathOnly (os_path_realpath e (arg_path a))))])"
    and "(arg_action a \<in> set [ascii ''u'', ascii ''unlock''] \<longrightarrow>
            sent (snd (main e a)) = [lock_request (ascii ''UNLOCK'')
              (fileurl_of (relativePathOnly (os_path_realpath e (arg_path a))))])"
    and "(arg_action a \<in> set [ascii ''q'', ascii ''quick-album''] \<longrightarrow>
            sent (snd (main e a)) = [share_request auth_global
              (ascii ''/'' @ relativePathOnly (os_path_realpath e (arg_path a)))])"
proof -
  let ?rel = "relativePathOnly (os_path_realpath e (arg_path a))"
  obtain s where m: "main e a = dispatch e a ?rel (fileurl_of ?rel) s" and s: "sent s = []"
    using main_proceeds [OF assms] by blast
  show "(arg_action a \<in> set [ascii ''i'', ascii ''internal-link''] \<longrightarrow>
            sent (snd (main e a)) = [propfind_request auth_global (fileurl_of ?rel)])"
    by (simp add: m dispatch_internal_link sent_and_then getFileId_sent s del: set_simps)
  show "(arg_action a \<in> set [ascii ''h'', ascii ''html-link''] \<longrightarrow>
            sent (snd (main e a)) = [propfind_request auth_global (fileurl_of ?rel)])"
    by (simp add: m dispatch_html_link sent_and_then getFileId_sent s del: set_simps)
  show "(arg_action a \<in> set [ascii ''l'', ascii ''lock''] \<longrightarrow>
            sent (snd (main e a)) = [lock_request (ascii ''LOCK'') (fileurl_of ?rel)])"
    by (simp add: m dispatch_lock sent_and_then lockOrUnlock_sent [OF bind_method_lock] s
        del: set_simps)
  show "(arg_action a \<in> set [ascii ''u'', ascii ''unlock''] \<longrightarrow>
            sent (snd (main e a)) = [lock_request (ascii ''UNLOCK'') (fileurl_of ?rel)])"
    by (simp add: m dispatch_unlock sent_and_then lockOrUnlock_sent [OF bind_method_unlock] s
        del: set_simps)
  show "(arg_action a \<in> set [ascii ''q'', ascii ''quick-album''] \<longrightarrow>
            sent (snd (main e a)) = [share_request auth_global (ascii ''/'' @ ?rel)])"
    by (simp add: m dispatch_quick_album sent_and_then sharePath_sent s del: set_simps)
qed

lemma choices_groups:
  "x \<in> set choices \<longleftrightarrow>
     x \<in> set [ascii ''i'', ascii ''internal-link''] \<or> x \<in> set [ascii ''h'', ascii ''html-link'']
     \<or> x \<in> set [ascii ''l'', ascii ''lock''] \<or> x \<in> set [ascii ''u'', ascii ''unlock'']
     \<or> x \<in> set [ascii ''q'', ascii ''quick-album'']"
  by (auto simp: choices_def)

lemma main_no_validation_error:
  assumes "os_path_exists e (arg_path a)" "arg_action a \<in> set choices"
  shows "path_missing \<notin> set (err (snd (main e a)))"
proof -
  let ?rel = "relativePathOnly (os_path_realpath e (arg_path a))"
  obtain s where m: "main e a = dispatch e a ?rel (fileurl_of ?rel) s"
    and s: "path_missing \<notin> set (err s)"
    using main_proceeds [OF assms(1)] by blast
  consider "arg_action a \<in> set [ascii ''i'', ascii ''internal-link'']"
    | "arg_action a \<in> set [ascii ''h'', ascii ''html-link'']"
    | "arg_action a \<in> set [ascii ''l'', ascii ''lock'']"
    | "arg_action a \<in> set [ascii ''u'', ascii ''unlock'']"
    | "arg_action a \<in> set [ascii ''q'', ascii ''quick-album'']"
    using assms(2) unfolding choices_groups by blast
  then show ?thesis
  proof cases
    case 1
    show ?thesis unfolding m dispatch_internal_link [OF 1]
      by (rule err_and_then) (simp_all add: getFileId_err s)
  next
    case 2
    show ?thesis unfolding m dispatch_html_link [OF 2]
      by (rule err_and_then) (simp_all add: getFileId_err s)
  next
    case 3
    show ?thesis unfolding m dispatch_lock [OF 3]
      by (rule err_and_then)
        (simp_all add: lockOrUnlock_lock_err debug_err_keeps s path_missing_neq)
  next
    case 4
    show ?thesis unfolding m dispatch_unlock [OF 4]
      by (rule err_and_then)
        (simp_all add: lockOrUnlock_unlock_err debug_err_keeps s path_missing_neq)
  next
    case 5
    show ?thesis unfolding m dispatch_quick_album [OF 5]
      by (rule err_and_then)
        (simp_all add: sharePath_err debug_err_keeps s path_missing_neq)
  qed
qed

lemma parse_sample_simps:
  "parse_sample share_body = Some share_tree"
  "parse_sample empty_share_body = Some empty_share_tree"
  "parse_sample propfind_body = Some propfind_tree"
  "parse_sample folder_body = Some folder_tree"
  by (simp_all add: parse_sample_def share_body_def empty_share_body_def propfind_body_def
      folder_body_def ascii_def)

lemma findtext_share_tree:
  "findtext share_tree (ascii ''token'') = Some (ascii ''tok1'')"
  "findtext share_tree (ascii ''file_source'') = Some (ascii ''99'')"
  by (simp_all add: findtext_def descendants_def share_tree_def ascii_def)

lemma findtext_empty_share_tree:
  "findtext empty_share_tree (ascii ''token'') = None"
  "findtext empty_share_tree (ascii ''file_source'') = None"
  by (simp_all add: findtext_def descendants_def empty_share_tree_def ascii_def)

lemma relativePathOnly_cat:
  "relativePathOnly (ascii ''/home/user/Nextcloud/photos/cat.jpg'') = ascii ''photos/cat.jpg''"
  by (simp add: relativePathOnly_def localSyncFolder_def ascii_def re_sub.simps)

text \<open>Without \<open>--debug\<close> the dispatch starts from the empty state.\<close>

lemma main_quiet:
  "os_path_exists e (arg_path a) \<Longrightarrow> \<not> arg_debug a \<Longrightarrow>
   main e a = dispatch e a (relativePathOnly (os_path_realpath e (arg_path a)))
                (fileurl_of (relativePathOnly (os_path_realpath e (arg_path a)))) io_init"
  by (simp add: main_def Let_def debug_def)

text \<open>\<open>findtext\<close> reads the first element with the tag among the descendants.\<close>

lemma findtext_find:
  "findtext root t =
     (case find (\<lambda>y. tag y = t) (descendants root) of
        None \<Rightarrow> None
      | Some x \<Rightarrow> Some (case elem_text x of None \<Rightarrow> [] | Some v \<Rightarrow> v))"
proof -
  have "\<And>xs. (case filter (\<lambda>x. tag x = t) xs of [] \<Rightarrow> None
              | x # _ \<Rightarrow> Some (case elem_text x of None \<Rightarrow> [] | Some v \<Rightarrow> v)) =
        (case find (\<lambda>y. tag y = t) xs of None \<Rightarrow> None
              | Some x \<Rightarrow> Some (case elem_text x of None \<Rightarrow> [] | Some v \<Rightarrow> v))"
  proof -
    fix xs :: "xml list"
    show "(case filter (\<lambda>x. tag x = t) xs of [] \<Rightarrow> None
              | x # _ \<Rightarrow> Some (case elem_text x of None \<Rightarrow> [] | Some v \<Rightarrow> v)) =
        (case find (\<lambda>y. tag y = t) xs of None \<Rightarrow> None
              | Some x \<Rightarrow> Some (case elem_text x of None \<Rightarrow> [] | Some v \<Rightarrow> v))"
      by (induction xs) auto
  qed
  then show ?thesis by (simp add: findtext_def)
qed

lemma descendants_folder_tree:
  "descendants folder_tree =
     [Element (ascii ''{DAV:}response'') None
          [Element (ascii ''{DAV:}prop'') None [Element fileid_tag (Some (ascii ''1'')) []]],
      Element (ascii ''{DAV:}prop'') None [Element fileid_tag (Some (ascii ''1'')) []],
      Element fileid_tag (Some (ascii ''1'')) [],
      Element (ascii ''{DAV:}response'') None
          [Element (ascii ''{DAV:}prop'') None [Element fileid_tag (Some (ascii ''2'')) []]],
      Element (ascii ''{DAV:}prop'') None [Element fileid_tag (Some (ascii ''2'')) []],
      Element fileid_tag (Some (ascii ''2'')) []]"
  by (simp add: descendants_def folder_tree_def)

lemma tag_neq_fileid:
  "ascii ''{DAV:}response'' \<noteq> fileid_tag" "ascii ''{DAV:}prop'' \<noteq> fileid_tag"
  "ascii ''{DAV:}multistatus'' \<noteq> fileid_tag" "ascii ''{DAV:}href'' \<noteq> fileid_tag"
  "ascii ''{DAV:}propstat'' \<noteq> fileid_tag"
  by (simp_all add: fileid_tag_def ascii_def)

lemma descendants_propfind_tree:
  "find (\<lambda>y. tag y = fileid_tag) (descendants propfind_tree) = Some (Element fileid_tag (Some (ascii ''42'')) [])"
  by (simp add: descendants_def propfind_tree_def tag_neq_fileid)

lemma and_then_never:
  "fst m \<noteq> Inl x \<Longrightarrow> (\<And>v s. fst (f v s) \<noteq> Inl x) \<Longrightarrow> fst (and_then m f) \<noteq> Inl x"
  by (cases m) (auto simp: and_then_def split: sum.splits)

lemma getFileId_bound:
  "fst (getFileId e a auth url s) \<noteq> Inl (Uncaught UnboundLocalError)"
  by (simp add: getFileId_def Let_def split: sum.splits option.splits)

lemma sharePath_bound:
  "fst (sharePath e a auth p s) \<noteq> Inl (Uncaught UnboundLocalError)"
  by (simp add: sharePath_def Let_def split: sum.splits option.splits)

lemma lockOrUnlock_bound:
  "bind_method act s = (Some m, s') \<Longrightarrow>
   fst (lockOrUnlock e a act auth url s) \<noteq> Inl (Uncaught UnboundLocalError)"
  by (simp add: lockOrUnlock_def Let_def split: sum.splits)

lemma do_internal_link_bound:
  "fst (do_internal_link e a url s) \<noteq> Inl (Uncaught UnboundLocalError)"
  unfolding do_internal_link_def
  by (simp add: and_then_never getFileId_bound del: set_simps)

lemma do_lock_bound:
  "fst (do_lock e a url s) \<noteq> Inl (Uncaught UnboundLocalError)"
  unfolding do_lock_def
  by (simp add: and_then_never lockOrUnlock_bound [OF bind_method_lock] del: set_simps)

lemma do_unlock_bound:
  "fst (do_unlock e a url s) \<noteq> Inl (Uncaught UnboundLocalError)"
  unfolding do_unlock_def
  by (simp add: and_then_never lockOrUnlock_bound [OF bind_method_unlock] del: set_simps)

lemma do_html_link_bound:
  "fst (do_html_link e a rel url s) \<noteq> Inl (Uncaught UnboundLocalError)"
  unfolding do_html_link_def
  by (simp add: and_then_never getFileId_bound del: set_simps)

lemma do_quick_album_bound:
  "fst (do_quick_album e a rel s) \<noteq> Inl (Uncaught UnboundLocalError)"
  unfolding do_quick_album_def
  by (simp add: and_then_never sharePath_bound del: set_simps)

lemma main_bound:
  "fst (main e a) \<noteq> Inl (Uncaught UnboundLocalError)"
  by (simp add: main_def Let_def dispatch_def and_then_never do_internal_link_bound do_lock_bound
      do_unlock_bound do_html_link_bound do_quick_album_bound)

text \<open>
  Where the sync root does not occur again in what follows it, \<open>relativePathOnly\<close> is the
  prefix stripping: the path without the sync root and without one leading character.
\<close>

lemma re_sub_no_match:
  "pat \<noteq> [] \<Longrightarrow> \<not> sublist pat s \<Longrightarrow> re_sub pat repl s = s"
proof (induction s)
  case Nil
  then show ?case by (simp add: re_sub.simps)
next
  case (Cons c cs)
  have "\<not> prefix pat (c # cs)"
    using Cons.prems(2) prefix_imp_sublist by blast
  moreover have "\<not> sublist pat cs"
    using Cons.prems(2) by (meson sublist_Cons_right)
  ultimately show ?case
    using Cons.IH [OF Cons.prems(1)] Cons.prems(1)
    by (subst re_sub.simps) simp
qed

lemma re_sub_leading_match:
  "pat \<noteq> [] \<Longrightarrow> re_sub pat repl (pat @ rest) = repl @ re_sub pat repl rest"
  by (subst re_sub.simps) simp

lemma re_sub_first_match:
  assumes "pat \<noteq> []" and "\<not> sublist pat (pre @ butlast pat)"
  shows "re_sub pat repl (pre @ pat @ post) = pre @ repl @ re_sub pat repl post"
  using assms(2)
proof (induction pre)
  case Nil
  show ?case using assms(1) by (subst re_sub.simps) simp
next
  case (Cons c pre)
  have np: "\<not> prefix pat (c # pre @ pat @ post)"
  proof
    assume "prefix pat (c # pre @ pat @ post)"
    then have "pat = take (length pat) (c # pre @ pat @ post)"
      by (metis append_eq_conv_conj prefix_def)
    also have "\<dots> = take (length pat) ((c # pre) @ butlast pat)"
    proof -
      have "length pat \<le> length ((c # pre) @ butlast pat)" by simp
      moreover have "c # pre @ pat @ post = ((c # pre) @ butlast pat) @ (last pat # post)"
        using assms(1) by simp
      ultimately show ?thesis by (metis order_refl take_all take_append diff_is_0_eq' take_0 append_Nil2)
    qed
    finally have "prefix pat ((c # pre) @ butlast pat)"
      by (metis take_is_prefix)
    then show False using Cons.prems prefix_imp_sublist by blast
  qed
  have "\<not> sublist pat (pre @ butlast pat)"
    using Cons.prems by (metis append_Cons sublist_Cons_right)
  then have "re_sub pat repl (pre @ pat @ post) = pre @ repl @ re_sub pat repl post"
    by (rule Cons.IH)
  then show ?case
    using np assms(1) by (subst re_sub.simps) simp
qed


lemma localSyncFolder_nonempty: "localSyncFolder \<noteq> []"
  by (simp add: localSyncFolder_def ascii_def)

text \<open>The three requests, with the configuration written out.\<close>

lemma request_literals:
  "propfind_request auth_global (fileurl_of rel) =
     \<lparr>req_method = ascii ''PROPFIND'',
      req_url = ascii ''http://localhost:8080/remote.php/dav/files/admin/'' @ rel,
      req_auth = (ascii ''admin'', ascii ''admin''), req_headers = [],
      req_data = RawData propfindBody\<rparr>"
  "lock_request meth (fileurl_of rel) =
     \<lparr>req_method = meth,
      req_url = ascii ''http://localhost:8080/remote.php/dav/files/admin/'' @ rel,
      req_auth = (ascii ''admin'', ascii ''admin''),
      req_headers = [(ascii ''X-User-Lock'', ascii ''1'')], req_data = NoData\<rparr>"
  "share_request auth_global p =
     \<lparr>req_method = ascii ''POST'',
      req_url = ascii ''http://localhost:8080/ocs/v2.php/apps/files_sharing/api/v1/shares'',
      req_auth = (ascii ''admin'', ascii ''admin''),
      req_headers = [(ascii ''OCS-APIRequest'', ascii ''true'')],
      req_data = FormData [(ascii ''attributes'', PyStr (ascii ''[]'')),
                           (ascii ''path'', PyStr p),
                           (ascii ''shareType'', PyInt 3)]\<rparr>"
  by (simp_all add: propfind_request_def lock_request_def share_request_def fileurl_of_def
      sharesUrl_def auth_global_def nextcloudServer_def nextcloudWebdavFileRoot_def
      nextcloudOcsShareApiRoot_def nextcloudUsername_def nextcloudPassword_def ascii_def)

section \<open>The claims\<close>

subsection \<open>Claim C1\<close>

text \<open>
  Claim C1. The claim: for every existing path whose resolved path is under the sync root,
  \<open>relativePathOnly\<close> is the resolved path without the sync-root prefix and one leading
  separator, also when the sync-root string occurs again further down the path. The
  program removes every occurrence: for
  \<open>/home/user/Nextcloud/bak/home/user/Nextcloud/x.txt\<close> it computes \<open>bak/x.txt\<close>, where
  the claim asks for \<open>bak/home/user/Nextcloud/x.txt\<close>.
\<close>

theorem nested_sync_root_is_removed_too:
  "under_sync_root nested_path
   \<and> relativePathOnly nested_path = ascii ''bak/x.txt''
   \<and> spec_relative_path nested_path = ascii ''bak/home/user/Nextcloud/x.txt''"
  by (simp add: under_sync_root_def relativePathOnly_def spec_relative_path_def nested_path_def
      localSyncFolder_def ascii_def re_sub.simps)

subsection \<open>Claim C2\<close>

text \<open>
  Claim C2. The claim: a status from 200 to 399 takes the success path, every other status
  the fatal path with exit code 1. The comments of the source ask for the same (``response
  status code must be between 200 and 400 to continue''), but the test is the truth value
  of the response, which is false for 400 to 599 only: a lock request answered with status
  600 ends normally, with exit code 0 and nothing on the error stream.
\<close>

theorem status_600_is_taken_as_success:
  "fst (main (world True (ascii ''/home/user/Nextcloud/notes.txt'') (answer 600 []))
          (run_args (ascii ''lock'') (ascii ''notes.txt''))) = Inr ()
   \<and> exit_code (fst (main (world True (ascii ''/home/user/Nextcloud/notes.txt'') (answer 600 []))
          (run_args (ascii ''lock'') (ascii ''notes.txt'')))) = 0
   \<and> err (snd (main (world True (ascii ''/home/user/Nextcloud/notes.txt'') (answer 600 []))
          (run_args (ascii ''lock'') (ascii ''notes.txt'')))) = []"
  by (simp add: main_quiet dispatch_lock world_def run_args_def answer_def lockOrUnlock_def
      bind_method_lock ok_def and_then_def exit_code_def debug_def Let_def)

subsection \<open>Claim C3\<close>

text \<open>
  Claim C3. The claim: a share response with an accepted status that lacks the share URL,
  the \<open>file_source\<close> or the token is a fatal error. \<open>getFileId\<close> tests its field for
  \<open>None\<close> and exits; \<open>sharePath\<close> has no such test: the run ends normally with exit code
  0, nothing on the error stream, and an anchor on standard output in which \<open>None\<close>
  stands for the token and the identifier.
\<close>

theorem share_without_fields_prints_None:
  "exit_code (fst (main (world True (ascii ''/home/user/Nextcloud/photos'') (answer 200 empty_share_body))
          (run_args (ascii ''quick-album'') (ascii ''photos'')))) = 0
   \<and> err (snd (main (world True (ascii ''/home/user/Nextcloud/photos'') (answer 200 empty_share_body))
          (run_args (ascii ''quick-album'') (ascii ''photos'')))) = []
   \<and> out (snd (main (world True (ascii ''/home/user/Nextcloud/photos'') (answer 200 empty_share_body))
          (run_args (ascii ''quick-album'') (ascii ''photos'')))) =
       [ascii ''<a href=\"http://localhost:8080/apps/files_sharing/publicpreview/None?file=/&fileId=None&x=4096&y=4096&a=true\"><img src=\"http://localhost:8080/apps/files_sharing/publicpreview/None?file=/&fileId=None&x=300&y=300&a=true\"></a>'']"
proof -
  note f = findtext_empty_share_tree
  show ?thesis
    by (simp add: main_quiet dispatch_quick_album world_def run_args_def answer_def sharePath_def
      ok_def and_then_def exit_code_def debug_def Let_def f parse_sample_simps album_anchor_def
      preview_url_def fmt_opt_def nextcloudServer_def)
      (simp add: ascii_def)
qed

subsection \<open>Claim C4\<close>

text \<open>
  Claim C4. For the quick-album action, when the share response is accepted and carries a
  token and a \<open>file_source\<close> identifier (the text of the first \<open>token\<close> and of the first
  \<open>file_source\<close> element below the root), the run ends normally and the one line on
  standard output is an anchor whose \<open>href\<close> is the preview endpoint with \<open>x=4096\<close>,
  \<open>y=4096\<close>, \<open>a=true\<close>, around an \<open>img\<close> whose \<open>src\<close> is the same endpoint with
  \<open>x=300\<close>, \<open>y=300\<close>, \<open>a=true\<close>, both with that token and \<open>fileId\<close>.
\<close>

theorem quick_album_output:
  assumes "os_path_exists e (arg_path a)"
    and "arg_action a \<in> set [ascii ''q'', ascii ''quick-album'']"
    and "send e (share_request auth_global
           (ascii ''/'' @ relativePathOnly (os_path_realpath e (arg_path a)))) = Inr r"
    and "ok r"
    and "fromstring e (resp_text r) = Some root"
    and "findtext root (ascii ''token'') = Some token"
    and "findtext root (ascii ''file_source'') = Some file_source"
  shows "fst (main e a) = Inr () \<and>
    out (snd (main e a)) =
      [ascii ''<a href=\"'' @ nextcloudServer @ ascii ''/apps/files_sharing/publicpreview/''
         @ token @ ascii ''?file=/&fileId='' @ file_source @ ascii ''&x=4096&y=4096&a=true''
       @ ascii ''\"><img src=\"'' @ nextcloudServer @ ascii ''/apps/files_sharing/publicpreview/''
         @ token @ ascii ''?file=/&fileId='' @ file_source @ ascii ''&x=300&y=300&a=true''
       @ ascii ''\"></a>'']"
proof -
  obtain s where m: "main e a = dispatch e a (relativePathOnly (os_path_realpath e (arg_path a)))
                 (fileurl_of (relativePathOnly (os_path_realpath e (arg_path a)))) s"
    and s: "out s = []"
    using main_proceeds [OF assms(1)] by blast
  let ?s = "debug a (runner @ ascii '' quick albuming...'') s"
  let ?p = "ascii ''/'' @ relativePathOnly (os_path_realpath e (arg_path a))"
  note sp = sharePath_parsed [OF assms(3,4,5), of a ?s]
  have "main e a =
      (Inr (), print_out (album_anchor
         (preview_url (Some token) (Some file_source) (ascii ''4096''))
         (preview_url (Some token) (Some file_source) (ascii ''300'')))
         (snd (sharePath e a auth_global ?p ?s)))"
    unfolding m dispatch_quick_album [OF assms(2)]
    by (simp add: fst_and_then [OF sp(1)] assms(6,7))
  then have "fst (main e a) = Inr ()"
    and "out (snd (main e a)) =
      [album_anchor (preview_url (Some token) (Some file_source) (ascii ''4096''))
         (preview_url (Some token) (Some file_source) (ascii ''300''))]"
    by (simp_all add: sp(2) s)
  then show ?thesis
    by (simp add: album_anchor_def preview_url_def fmt_opt_def ascii_def)
qed

theorem quick_album_output_witness:
  "fst (main (world True (ascii ''/home/user/Nextcloud/photos/cat.jpg'') (answer 200 share_body))
          (run_args (ascii ''quick-album'') (ascii ''photos/cat.jpg''))) = Inr ()
   \<and> out (snd (main (world True (ascii ''/home/user/Nextcloud/photos/cat.jpg'') (answer 200 share_body))
          (run_args (ascii ''quick-album'') (ascii ''photos/cat.jpg'')))) =
       [ascii ''<a href=\"http://localhost:8080/apps/files_sharing/publicpreview/tok1?file=/&fileId=99&x=4096&y=4096&a=true\"><img src=\"http://localhost:8080/apps/files_sharing/publicpreview/tok1?file=/&fileId=99&x=300&y=300&a=true\"></a>'']"
proof -
  have "fst (main (world True (ascii ''/home/user/Nextcloud/photos/cat.jpg'') (answer 200 share_body))
          (run_args (ascii ''quick-album'') (ascii ''photos/cat.jpg''))) = Inr () \<and>
    out (snd (main (world True (ascii ''/home/user/Nextcloud/photos/cat.jpg'') (answer 200 share_body))
          (run_args (ascii ''quick-album'') (ascii ''photos/cat.jpg'')))) =
      [ascii ''<a href=\"'' @ nextcloudServer @ ascii ''/apps/files_sharing/publicpreview/''
         @ ascii ''tok1'' @ ascii ''?file=/&fileId='' @ ascii ''99'' @ ascii ''&x=4096&y=4096&a=true''
       @ ascii ''\"><img src=\"'' @ nextcloudServer @ ascii ''/apps/files_sharing/publicpreview/''
         @ ascii ''tok1'' @ ascii ''?file=/&fileId='' @ ascii ''99'' @ ascii ''&x=300&y=300&a=true''
       @ ascii ''\"></a>'']"
    by (rule quick_album_output [where r = "\<lparr>status_code = 200, resp_text = share_body\<rparr>"
          and root = share_tree])
      (simp_all add: world_def run_args_def answer_def ok_def parse_sample_simps
        findtext_share_tree)
  then show ?thesis
    by (simp add: nextcloudServer_def ascii_def)
qed

subsection \<open>Claim C5\<close>

text \<open>
  Claim C5. For every server base URL and file identifier the internal link is the
  server, \<open>/f/\<close>, and the identifier; and the html-link action prints exactly one line,
  the anchor with that link (for the configured server and the fetched identifier) as
  \<open>href\<close> and the remote-relative path as link text.
\<close>

theorem html_link_output:
  "renderInternalUrl server fid = server @ ascii ''/f/'' @ fid \<and>
   (os_path_exists e (arg_path a) \<and> arg_action a \<in> set [ascii ''h'', ascii ''html-link'']
    \<and> send e (propfind_request auth_global
          (fileurl_of (relativePathOnly (os_path_realpath e (arg_path a))))) = Inr r
    \<and> ok r \<and> fromstring e (resp_text r) = Some root \<and> findtext root fileid_tag = Some v
    \<longrightarrow> fst (main e a) = Inr () \<and>
        out (snd (main e a)) =
          [ascii ''<a href=\"'' @ nextcloudServer @ ascii ''/f/'' @ v @ ascii ''\">''
             @ relativePathOnly (os_path_realpath e (arg_path a)) @ ascii ''</a>''])"
proof (intro conjI impI)
  show "renderInternalUrl server fid = server @ ascii ''/f/'' @ fid"
    by (simp add: renderInternalUrl_def)
next
  assume h: "os_path_exists e (arg_path a) \<and> arg_action a \<in> set [ascii ''h'', ascii ''html-link'']
    \<and> send e (propfind_request auth_global
          (fileurl_of (relativePathOnly (os_path_realpath e (arg_path a))))) = Inr r
    \<and> ok r \<and> fromstring e (resp_text r) = Some root \<and> findtext root fileid_tag = Some v"
  let ?rel = "relativePathOnly (os_path_realpath e (arg_path a))"
  obtain s where m: "main e a = dispatch e a ?rel (fileurl_of ?rel) s" and s: "out s = []"
    using main_proceeds [of e a] h by blast
  have g: "fst (getFileId e a auth_global (fileurl_of ?rel) s) = Inr v"
    using h by (intro getFileId_found [of e _ _ r root]) simp_all
  have eq: "main e a = (Inr (), print_out (html_anchor (renderInternalUrl nextcloudServer v) ?rel)
                 (snd (getFileId e a auth_global (fileurl_of ?rel) s)))"
    using h by (simp add: m dispatch_html_link fst_and_then [OF g] del: set_simps)
  show "fst (main e a) = Inr ()"
    by (simp add: eq)
  show "out (snd (main e a)) =
          [ascii ''<a href=\"'' @ nextcloudServer @ ascii ''/f/'' @ v @ ascii ''\">''
             @ ?rel @ ascii ''</a>'']"
    by (simp add: eq getFileId_out s html_anchor_def renderInternalUrl_def)
qed

theorem html_link_output_witness:
  "renderInternalUrl (ascii ''http://localhost:8080'') (ascii ''123'') = ascii ''http://localhost:8080/f/123''
   \<and> out (snd (main (world True (ascii ''/home/user/Nextcloud/photos/cat.jpg'') (answer 207 propfind_body))
          (run_args (ascii ''html-link'') (ascii ''photos/cat.jpg'')))) =
       [ascii ''<a href=\"http://localhost:8080/f/42\">photos/cat.jpg</a>'']"
  using html_link_output [where e = "world True (ascii ''/home/user/Nextcloud/photos/cat.jpg'') (answer 207 propfind_body)"
      and a = "run_args (ascii ''html-link'') (ascii ''photos/cat.jpg'')"
      and r = "\<lparr>status_code = 207, resp_text = propfind_body\<rparr>"
      and root = propfind_tree and v = "ascii ''42''"
      and server = "ascii ''http://localhost:8080''" and fid = "ascii ''123''"]
  by (simp add: world_def run_args_def answer_def ok_def parse_sample_simps findtext_find
      descendants_propfind_tree nextcloudServer_def relativePathOnly_cat) (simp add: ascii_def)

subsection \<open>Claim C6\<close>

text \<open>
  Claim C6, as amended. For an accepted response whose body parses: when the first element
  below the root, in document order, that is tagged \<open>{http://owncloud.org/ns}fileid\<close> is
  \<open>x\<close>, the fetcher returns the text of \<open>x\<close> (the empty string when \<open>x\<close> has no text);
  when no element below the root has that tag, the fetcher prints the report with the
  status and the body as the last line of the error stream, leaves standard output as it
  was, and exits with code 1.
\<close>

theorem getFileId_returns_first_fileid:
  assumes "send e (propfind_request auth url) = Inr r"
    and "ok r"
    and "fromstring e (resp_text r) = Some root"
  shows "(find (\<lambda>y. tag y = fileid_tag) (descendants root) = Some x \<longrightarrow>
            fst (getFileId e a auth url s) = Inr (case elem_text x of None \<Rightarrow> [] | Some v \<Rightarrow> v))
    \<and> (find (\<lambda>y. tag y = fileid_tag) (descendants root) = None \<longrightarrow>
            fst (getFileId e a auth url s) = Inl (SysExit 1)
            \<and> out (snd (getFileId e a auth url s)) = out s
            \<and> last (err (snd (getFileId e a auth url s))) =
                no_entry @ ascii '' HTTP response code '' @ str_int (status_code r)
                  @ ascii ''. Response text: '' @ resp_text r)"
proof (intro conjI impI)
  assume "find (\<lambda>y. tag y = fileid_tag) (descendants root) = Some x"
  then have "findtext root fileid_tag = Some (case elem_text x of None \<Rightarrow> [] | Some v \<Rightarrow> v)"
    by (simp add: findtext_find)
  then show "fst (getFileId e a auth url s) = Inr (case elem_text x of None \<Rightarrow> [] | Some v \<Rightarrow> v)"
    by (rule getFileId_found [OF assms])
next
  assume "find (\<lambda>y. tag y = fileid_tag) (descendants root) = None"
  then have n: "findtext root fileid_tag = None"
    by (simp add: findtext_find)
  show "fst (getFileId e a auth url s) = Inl (SysExit 1)"
    by (rule getFileId_absent(1) [OF assms n])
  show "out (snd (getFileId e a auth url s)) = out s"
    by (rule getFileId_out)
  show "last (err (snd (getFileId e a auth url s))) =
                no_entry @ ascii '' HTTP response code '' @ str_int (status_code r)
                  @ ascii ''. Response text: '' @ resp_text r"
    using getFileId_absent(2) [OF assms n] by (simp add: http_report_def)
qed

theorem getFileId_returns_first_fileid_witness:
  "fst (getFileId (world True (ascii ''/home/user/Nextcloud/photos'') (answer 207 folder_body))
            (run_args (ascii ''i'') (ascii ''photos'')) auth_global
            (fileurl_of (ascii ''photos'')) io_init) = Inr (ascii ''1'')
   \<and> fst (getFileId (world True (ascii ''/home/user/Nextcloud/photos'') (answer 200 empty_share_body))
            (run_args (ascii ''i'') (ascii ''photos'')) auth_global
            (fileurl_of (ascii ''photos'')) io_init) = Inl (SysExit 1)
   \<and> last (err (snd (getFileId (world True (ascii ''/home/user/Nextcloud/photos'') (answer 200 empty_share_body))
            (run_args (ascii ''i'') (ascii ''photos'')) auth_global
            (fileurl_of (ascii ''photos'')) io_init))) =
       no_entry @ ascii '' HTTP response code 200. Response text: '' @ empty_share_body"
proof -
  have f: "find (\<lambda>y. tag y = fileid_tag) (descendants folder_tree) = Some (Element fileid_tag (Some (ascii ''1'')) [])"
    by (simp add: descendants_folder_tree tag_neq_fileid)
  have g: "find (\<lambda>y. tag y = fileid_tag) (descendants empty_share_tree) = None"
    by (simp add: descendants_def empty_share_tree_def fileid_tag_def ascii_def)
  have d: "str_int 200 = ascii ''200''"
    by (simp add: str_int_def ascii_def)
  show ?thesis
    using getFileId_returns_first_fileid [where e = "world True (ascii ''/home/user/Nextcloud/photos'') (answer 207 folder_body)"
        and r = "\<lparr>status_code = 207, resp_text = folder_body\<rparr>" and root = folder_tree
        and auth = auth_global and url = "fileurl_of (ascii ''photos'')"
        and x = "Element fileid_tag (Some (ascii ''1'')) []"
        and a = "run_args (ascii ''i'') (ascii ''photos'')" and s = io_init]
      getFileId_returns_first_fileid [where e = "world True (ascii ''/home/user/Nextcloud/photos'') (answer 200 empty_share_body)"
        and r = "\<lparr>status_code = 200, resp_text = empty_share_body\<rparr>" and root = empty_share_tree
        and auth = auth_global and url = "fileurl_of (ascii ''photos'')"
        and a = "run_args (ascii ''i'') (ascii ''photos'')" and s = io_init]
    by (simp add: world_def answer_def ok_def parse_sample_simps f g d) (simp add: ascii_def)
qed

text \<open>
  Claim C6 as stated fails where the body holds more than one \<open>fileid\<close> element: the
  multistatus answer for a folder and a file in it contains a \<open>fileid\<close> element with value
  \<open>2\<close>, the status 207 is accepted, and the fetcher returns \<open>1\<close>.
\<close>

theorem second_fileid_is_not_returned:
  "Element fileid_tag (Some (ascii ''2'')) [] \<in> set (iter folder_tree)
   \<and> parse_sample folder_body = Some folder_tree
   \<and> ok \<lparr>status_code = 207, resp_text = folder_body\<rparr>
   \<and> fst (getFileId (world True (ascii ''/home/user/Nextcloud/photos'') (answer 207 folder_body))
            (run_args (ascii ''i'') (ascii ''photos'')) auth_global
            (fileurl_of (ascii ''photos'')) io_init) = Inr (ascii ''1'')
   \<and> ascii ''1'' \<noteq> ascii ''2''"
proof -
  have f: "findtext folder_tree fileid_tag = Some (ascii ''1'')"
    by (simp add: findtext_def descendants_folder_tree tag_neq_fileid)
  have "Element fileid_tag (Some (ascii ''2'')) [] \<in> set (iter folder_tree)"
    by (simp add: folder_tree_def)
  moreover have "parse_sample folder_body = Some folder_tree"
    by (rule parse_sample_simps)
  moreover have "ok \<lparr>status_code = 207, resp_text = folder_body\<rparr>"
    by (simp add: ok_def)
  moreover have "fst (getFileId (world True (ascii ''/home/user/Nextcloud/photos'') (answer 207 folder_body))
            (run_args (ascii ''i'') (ascii ''photos'')) auth_global
            (fileurl_of (ascii ''photos'')) io_init) = Inr (ascii ''1'')"
    by (rule getFileId_found [where r = "\<lparr>status_code = 207, resp_text = folder_body\<rparr>"
          and root = folder_tree])
      (simp_all add: world_def answer_def ok_def parse_sample_simps f)
  moreover have "ascii ''1'' \<noteq> ascii ''2''"
    by (simp add: ascii_def)
  ultimately show ?thesis by blast
qed

subsection \<open>Claim C7\<close>

text \<open>
  Claim C7. The claim: every lock or unlock request answered with a status that is not
  accepted ends the process with exit code 1, the diagnostic about the locking app and the
  lock state on the error stream, and nothing on standard output. The comment at line 137
  takes the accepted statuses to be those from 200 up to 400, but the test is the truth
  value of the response, which is false for 400 to 599 only: an unlock request answered
  with status 102 ends normally, with exit code 0 and nothing on the error stream. (For
  400 to 599 the claim holds: \<open>lock_failure_is_fatal\<close> below.)
\<close>

theorem unlock_status_102_is_taken_as_success:
  "fst (main (world True (ascii ''/home/user/Nextcloud/notes.txt'') (answer 102 []))
          (run_args (ascii ''unlock'') (ascii ''notes.txt''))) = Inr ()
   \<and> exit_code (fst (main (world True (ascii ''/home/user/Nextcloud/notes.txt'') (answer 102 []))
          (run_args (ascii ''unlock'') (ascii ''notes.txt'')))) = 0
   \<and> err (snd (main (world True (ascii ''/home/user/Nextcloud/notes.txt'') (answer 102 []))
          (run_args (ascii ''unlock'') (ascii ''notes.txt'')))) = []
   \<and> sent (snd (main (world True (ascii ''/home/user/Nextcloud/notes.txt'') (answer 102 []))
          (run_args (ascii ''unlock'') (ascii ''notes.txt'')))) =
       [\<lparr>req_method = ascii ''UNLOCK'',
         req_url = ascii ''http://localhost:8080/remote.php/dav/files/admin/notes.txt'',
         req_auth = (ascii ''admin'', ascii ''admin''),
         req_headers = [(ascii ''X-User-Lock'', ascii ''1'')], req_data = NoData\<rparr>]"
proof -
  have r: "relativePathOnly (ascii ''/home/user/Nextcloud/notes.txt'') = ascii ''notes.txt''"
    by (simp add: relativePathOnly_def localSyncFolder_def ascii_def re_sub.simps)
  show ?thesis
    by (simp add: main_quiet dispatch_unlock world_def run_args_def answer_def lockOrUnlock_def
      bind_method_unlock ok_def and_then_def exit_code_def debug_def Let_def r request_literals)
      (simp add: ascii_def)
qed

subsection \<open>Claim C8\<close>



subsection \<open>Claim C9\<close>

text \<open>
  Claim C9. Called with \<open>lock\<close> or \<open>unlock\<close>, \<open>lockOrUnlock\<close> binds \<open>method\<close> to \<open>LOCK\<close>
  or \<open>UNLOCK\<close> without printing, issues its request with that method, and does not raise
  \<open>UnboundLocalError\<close>. Called with any other action it prints the internal error, does
  not exit there, and then fails on the unbound \<open>method\<close> with \<open>UnboundLocalError\<close> (at
  the first use, the f-string of line 128, so that no request is issued). The dispatcher
  passes \<open>lock\<close> and \<open>unlock\<close> only: no run of the program ends in that error.
\<close>

theorem lock_method_is_bound:
  "(act = ascii ''lock'' \<longrightarrow>
      bind_method act s = (Some (ascii ''LOCK''), s)
      \<and> sent (snd (lockOrUnlock e a act auth url s)) = sent s @ [lock_request (ascii ''LOCK'') url]
      \<and> fst (lockOrUnlock e a act auth url s) \<noteq> Inl (Uncaught UnboundLocalError))
   \<and> (act = ascii ''unlock'' \<longrightarrow>
      bind_method act s = (Some (ascii ''UNLOCK''), s)
      \<and> sent (snd (lockOrUnlock e a act auth url s)) = sent s @ [lock_request (ascii ''UNLOCK'') url]
      \<and> fst (lockOrUnlock e a act auth url s) \<noteq> Inl (Uncaught UnboundLocalError))
   \<and> (act \<noteq> ascii ''lock'' \<and> act \<noteq> ascii ''unlock'' \<longrightarrow>
      bind_method act s = (None, print_err (no_entry @ ascii '' internal error. action='' @ act) s)
      \<and> lockOrUnlock e a act auth url s =
          (Inl (Uncaught UnboundLocalError),
           print_err (no_entry @ ascii '' internal error. action='' @ act) s))
   \<and> fst (main e' a') \<noteq> Inl (Uncaught UnboundLocalError)"
proof (intro conjI impI)
  assume "act = ascii ''lock''"
  then show "bind_method act s = (Some (ascii ''LOCK''), s)"
    and "sent (snd (lockOrUnlock e a act auth url s)) = sent s @ [lock_request (ascii ''LOCK'') url]"
    and "fst (lockOrUnlock e a act auth url s) \<noteq> Inl (Uncaught UnboundLocalError)"
    by (simp_all add: bind_method_lock lockOrUnlock_sent [OF bind_method_lock]
        lockOrUnlock_bound [OF bind_method_lock])
next
  assume "act = ascii ''unlock''"
  then show "bind_method act s = (Some (ascii ''UNLOCK''), s)"
    and "sent (snd (lockOrUnlock e a act auth url s)) = sent s @ [lock_request (ascii ''UNLOCK'') url]"
    and "fst (lockOrUnlock e a act auth url s) \<noteq> Inl (Uncaught UnboundLocalError)"
    by (simp_all add: bind_method_unlock lockOrUnlock_sent [OF bind_method_unlock]
        lockOrUnlock_bound [OF bind_method_unlock])
next
  assume o: "act \<noteq> ascii ''lock'' \<and> act \<noteq> ascii ''unlock''"
  then show b: "bind_method act s = (None, print_err (no_entry @ ascii '' internal error. action='' @ act) s)"
    by (simp add: bind_method_def)
  show "lockOrUnlock e a act auth url s =
          (Inl (Uncaught UnboundLocalError),
           print_err (no_entry @ ascii '' internal error. action='' @ act) s)"
    by (simp add: lockOrUnlock_def b)
next
  show "fst (main e' a') \<noteq> Inl (Uncaught UnboundLocalError)"
    by (rule main_bound)
qed

theorem lock_method_is_bound_witness:
  "bind_method (ascii ''lock'') io_init = (Some (ascii ''LOCK''), io_init)
   \<and> sent (snd (lockOrUnlock (world True (ascii ''/home/user/Nextcloud/notes.txt'') (answer 200 []))
        (run_args (ascii ''l'') (ascii ''notes.txt'')) (ascii ''lock'') auth_global
        (fileurl_of (ascii ''notes.txt'')) io_init)) =
       [lock_request (ascii ''LOCK'') (fileurl_of (ascii ''notes.txt''))]
   \<and> lockOrUnlock (world True (ascii ''/home/user/Nextcloud/notes.txt'') (answer 200 []))
        (run_args (ascii ''l'') (ascii ''notes.txt'')) (ascii ''relock'') auth_global
        (fileurl_of (ascii ''notes.txt'')) io_init =
       (Inl (Uncaught UnboundLocalError),
        print_err (no_entry @ ascii '' internal error. action=relock'') io_init)"
  using lock_method_is_bound [where act = "ascii ''lock''" and s = io_init
      and e = "world True (ascii ''/home/user/Nextcloud/notes.txt'') (answer 200 [])"
      and a = "run_args (ascii ''l'') (ascii ''notes.txt'')" and auth = auth_global
      and url = "fileurl_of (ascii ''notes.txt'')"]
    lock_method_is_bound [where act = "ascii ''relock''" and s = io_init
      and e = "world True (ascii ''/home/user/Nextcloud/notes.txt'') (answer 200 [])"
      and a = "run_args (ascii ''l'') (ascii ''notes.txt'')" and auth = auth_global
      and url = "fileurl_of (ascii ''notes.txt'')"]
  by (simp add: ascii_def)

subsection \<open>Claim C10\<close>

text \<open>
  Claim C10. For an existing path whose resolved path is not under the sync root, and an
  action argparse accepts, the path-not-found error is not reported; the relative path is
  the resolved path with every match of the sync root removed and its first character
  dropped, and the one request of the run carries it: PROPFIND, LOCK and UNLOCK go to
  \<open>http://localhost:8080/remote.php/dav/files/admin/\<close> followed by it, and the share
  request posts \<open>/\<close> followed by it as the form field \<open>path\<close>. Where the resolved path
  does not hold the sync root, only the first character is dropped; where it holds it
  once, anywhere, that occurrence is cut out before the first character is dropped.
\<close>

theorem outside_sync_root_proceeds:
  assumes "os_path_exists e (arg_path a)"
    and "arg_action a \<in> set choices"
    and "\<not> under_sync_root (os_path_realpath e (arg_path a))"
  shows "path_missing \<notin> set (err (snd (main e a)))
    \<and> (arg_action a \<in> set [ascii ''i'', ascii ''internal-link'', ascii ''h'', ascii ''html-link''] \<longrightarrow>
          sent (snd (main e a)) =
            [\<lparr>req_method = ascii ''PROPFIND'',
              req_url = ascii ''http://localhost:8080/remote.php/dav/files/admin/''
                @ drop 1 (re_sub localSyncFolder [] (os_path_realpath e (arg_path a))),
              req_auth = (ascii ''admin'', ascii ''admin''), req_headers = [],
              req_data = RawData propfindBody\<rparr>])
    \<and> (arg_action a \<in> set [ascii ''l'', ascii ''lock''] \<longrightarrow>
          sent (snd (main e a)) =
            [\<lparr>req_method = ascii ''LOCK'',
              req_url = ascii ''http://localhost:8080/remote.php/dav/files/admin/''
                @ drop 1 (re_sub localSyncFolder [] (os_path_realpath e (arg_path a))),
              req_auth = (ascii ''admin'', ascii ''admin''),
              req_headers = [(ascii ''X-User-Lock'', ascii ''1'')], req_data = NoData\<rparr>])
    \<and> (arg_action a \<in> set [ascii ''u'', ascii ''unlock''] \<longrightarrow>
          sent (snd (main e a)) =
            [\<lparr>req_method = ascii ''UNLOCK'',
              req_url = ascii ''http://localhost:8080/remote.php/dav/files/admin/''
                @ drop 1 (re_sub localSyncFolder [] (os_path_realpath e (arg_path a))),
              req_auth = (ascii ''admin'', ascii ''admin''),
              req_headers = [(ascii ''X-User-Lock'', ascii ''1'')], req_data = NoData\<rparr>])
    \<and> (arg_action a \<in> set [ascii ''q'', ascii ''quick-album''] \<longrightarrow>
          sent (snd (main e a)) =
            [\<lparr>req_method = ascii ''POST'',
              req_url = ascii ''http://localhost:8080/ocs/v2.php/apps/files_sharing/api/v1/shares'',
              req_auth = (ascii ''admin'', ascii ''admin''),
              req_headers = [(ascii ''OCS-APIRequest'', ascii ''true'')],
              req_data = FormData
                [(ascii ''attributes'', PyStr (ascii ''[]'')),
                 (ascii ''path'', PyStr (ascii ''/''
                    @ drop 1 (re_sub localSyncFolder [] (os_path_realpath e (arg_path a))))),
                 (ascii ''shareType'', PyInt 3)]\<rparr>])
    \<and> (\<not> sublist localSyncFolder (os_path_realpath e (arg_path a)) \<longrightarrow>
          drop 1 (re_sub localSyncFolder [] (os_path_realpath e (arg_path a))) =
            drop 1 (os_path_realpath e (arg_path a)))
    \<and> (os_path_realpath e (arg_path a) = pre @ localSyncFolder @ post
         \<and> \<not> sublist localSyncFolder (pre @ butlast localSyncFolder)
         \<and> \<not> sublist localSyncFolder post \<longrightarrow>
          drop 1 (re_sub localSyncFolder [] (os_path_realpath e (arg_path a))) = drop 1 (pre @ post))"
proof -
  let ?rp = "os_path_realpath e (arg_path a)"
  note s = main_sends [OF assms(1), unfolded relativePathOnly_def request_literals]
  have p: "arg_action a \<in> set [ascii ''i'', ascii ''internal-link'', ascii ''h'', ascii ''html-link''] \<longrightarrow>
          sent (snd (main e a)) =
            [\<lparr>req_method = ascii ''PROPFIND'',
              req_url = ascii ''http://localhost:8080/remote.php/dav/files/admin/''
                @ drop 1 (re_sub localSyncFolder [] ?rp),
              req_auth = (ascii ''admin'', ascii ''admin''), req_headers = [],
              req_data = RawData propfindBody\<rparr>]"
    using s(1,2) by auto
  have z: "\<not> sublist localSyncFolder ?rp \<longrightarrow> drop 1 (re_sub localSyncFolder [] ?rp) = drop 1 ?rp"
    by (simp add: re_sub_no_match [OF localSyncFolder_nonempty])
  have o: "?rp = pre @ localSyncFolder @ post
         \<and> \<not> sublist localSyncFolder (pre @ butlast localSyncFolder)
         \<and> \<not> sublist localSyncFolder post \<longrightarrow>
          drop 1 (re_sub localSyncFolder [] ?rp) = drop 1 (pre @ post)"
    by (simp add: re_sub_first_match [OF localSyncFolder_nonempty]
        re_sub_no_match [OF localSyncFolder_nonempty])
  show ?thesis
    using main_no_validation_error [OF assms(1,2)] p s(3,4,5) z o by blast
qed


theorem outside_sync_root_proceeds_witness:
  "\<not> under_sync_root sibling_path
   \<and> path_missing \<notin> set (err (snd (main (world True sibling_path (answer 404 []))
          (run_args (ascii ''i'') (ascii ''x.txt'')))))
   \<and> sent (snd (main (world True sibling_path (answer 404 []))
          (run_args (ascii ''i'') (ascii ''x.txt'')))) =
       [\<lparr>req_method = ascii ''PROPFIND'',
         req_url = ascii ''http://localhost:8080/remote.php/dav/files/admin/ld/x.txt'',
         req_auth = (ascii ''admin'', ascii ''admin''), req_headers = [],
         req_data = RawData propfindBody\<rparr>]
   \<and> \<not> under_sync_root mounted_path
   \<and> sent (snd (main (world True mounted_path (answer 200 share_body))
          (run_args (ascii ''q'') (ascii ''b.txt'')))) =
       [\<lparr>req_method = ascii ''POST'',
         req_url = ascii ''http://localhost:8080/ocs/v2.php/apps/files_sharing/api/v1/shares'',
         req_auth = (ascii ''admin'', ascii ''admin''),
         req_headers = [(ascii ''OCS-APIRequest'', ascii ''true'')],
         req_data = FormData
           [(ascii ''attributes'', PyStr (ascii ''[]'')),
            (ascii ''path'', PyStr (ascii ''/mnt/a/b.txt'')),
            (ascii ''shareType'', PyInt 3)]\<rparr>]
   \<and> \<not> under_sync_root foreign_path
   \<and> sent (snd (main (world True foreign_path (answer 423 []))
          (run_args (ascii ''lock'') (ascii ''hosts'')))) =
       [\<lparr>req_method = ascii ''LOCK'',
         req_url = ascii ''http://localhost:8080/remote.php/dav/files/admin/etc/hosts'',
         req_auth = (ascii ''admin'', ascii ''admin''),
         req_headers = [(ascii ''X-User-Lock'', ascii ''1'')], req_data = NoData\<rparr>]"
proof -
  have n: "\<not> under_sync_root sibling_path" "\<not> under_sync_root mounted_path"
    "\<not> under_sync_root foreign_path"
    by (simp_all add: under_sync_root_def sibling_path_def mounted_path_def foreign_path_def
        localSyncFolder_def ascii_def)
  have r: "drop (Suc 0) (re_sub localSyncFolder [] sibling_path) = ascii ''ld/x.txt''"
    "drop (Suc 0) (re_sub localSyncFolder [] mounted_path) = ascii ''mnt/a/b.txt''"
    "drop (Suc 0) (re_sub localSyncFolder [] foreign_path) = ascii ''etc/hosts''"
    by (simp_all add: sibling_path_def mounted_path_def foreign_path_def localSyncFolder_def
        ascii_def re_sub.simps)
  have a: "path_missing \<notin> set (err (snd (main (world True sibling_path (answer 404 []))
          (run_args (ascii ''i'') (ascii ''x.txt'')))))
      \<and> sent (snd (main (world True sibling_path (answer 404 []))
          (run_args (ascii ''i'') (ascii ''x.txt'')))) =
       [\<lparr>req_method = ascii ''PROPFIND'',
         req_url = ascii ''http://localhost:8080/remote.php/dav/files/admin/ld/x.txt'',
         req_auth = (ascii ''admin'', ascii ''admin''), req_headers = [],
         req_data = RawData propfindBody\<rparr>]"
    using outside_sync_root_proceeds [of "world True sibling_path (answer 404 [])"
        "run_args (ascii ''i'') (ascii ''x.txt'')"] n(1)
    by (simp add: world_def run_args_def choices_def r ascii_def)
  have b: "sent (snd (main (world True mounted_path (answer 200 share_body))
          (run_args (ascii ''q'') (ascii ''b.txt'')))) =
       [\<lparr>req_method = ascii ''POST'',
         req_url = ascii ''http://localhost:8080/ocs/v2.php/apps/files_sharing/api/v1/shares'',
         req_auth = (ascii ''admin'', ascii ''admin''),
         req_headers = [(ascii ''OCS-APIRequest'', ascii ''true'')],
         req_data = FormData
           [(ascii ''attributes'', PyStr (ascii ''[]'')),
            (ascii ''path'', PyStr (ascii ''/mnt/a/b.txt'')),
            (ascii ''shareType'', PyInt 3)]\<rparr>]"
    using outside_sync_root_proceeds [of "world True mounted_path (answer 200 share_body)"
        "run_args (ascii ''q'') (ascii ''b.txt'')"] n(2)
    by (simp add: world_def run_args_def choices_def r ascii_def)
  have c: "sent (snd (main (world True foreign_path (answer 423 []))
          (run_args (ascii ''lock'') (ascii ''hosts'')))) =
       [\<lparr>req_method = ascii ''LOCK'',
         req_url = ascii ''http://localhost:8080/remote.php/dav/files/admin/etc/hosts'',
         req_auth = (ascii ''admin'', ascii ''admin''),
         req_headers = [(ascii ''X-User-Lock'', ascii ''1'')], req_data = NoData\<rparr>]"
    using outside_sync_root_proceeds [of "world True foreign_path (answer 423 [])"
        "run_args (ascii ''lock'') (ascii ''hosts'')"] n(3)
    by (simp add: world_def run_args_def choices_def r ascii_def)
  show ?thesis
    using n a b c by blast
qed

section \<open>Further properties of the path stripping and of the status test\<close>

lemma relativePathOnly_single_occurrence:
  assumes "\<not> sublist localSyncFolder rest"
  shows "relativePathOnly (localSyncFolder @ rest) = drop 1 rest"
    and "relativePathOnly (localSyncFolder @ rest) = spec_relative_path (localSyncFolder @ rest)"
  using assms
  by (simp_all add: relativePathOnly_def spec_relative_path_def
      re_sub_leading_match [OF localSyncFolder_nonempty]
      re_sub_no_match [OF localSyncFolder_nonempty])

text \<open>
  The status test by ranges: a status from 400 to 599 is fatal for every action, with
  exit code 1 and nothing on standard output; a status from 200 to 399 lets a lock or an
  unlock end normally.
\<close>

lemma ok_iff: "ok r \<longleftrightarrow> status_code r < 400 \<or> 600 \<le> status_code r"
  by (auto simp: ok_def)

lemma sharePath_refused:
  assumes "send e (share_request auth p) = Inr r" "\<not> ok r"
  shows "fst (sharePath e a auth p s) = Inl (SysExit 1)"
  using assms by (simp add: sharePath_def Let_def)

lemma refused_status_is_fatal:
  assumes "os_path_exists e (arg_path a)"
    and "arg_action a \<in> set choices"
    and "\<And>req. send e req = Inr r"
    and "400 \<le> status_code r" "status_code r < 600"
  shows "fst (main e a) = Inl (SysExit 1)" and "out (snd (main e a)) = []"
proof -
  let ?rel = "relativePathOnly (os_path_realpath e (arg_path a))"
  obtain s where m: "main e a = dispatch e a ?rel (fileurl_of ?rel) s" and s: "out s = []"
    using main_proceeds [OF assms(1)] by blast
  have nok: "\<not> ok r" using assms(4,5) by (simp add: ok_def)
  consider "arg_action a \<in> set [ascii ''i'', ascii ''internal-link'']"
    | "arg_action a \<in> set [ascii ''h'', ascii ''html-link'']"
    | "arg_action a \<in> set [ascii ''l'', ascii ''lock'']"
    | "arg_action a \<in> set [ascii ''u'', ascii ''unlock'']"
    | "arg_action a \<in> set [ascii ''q'', ascii ''quick-album'']"
    using assms(2) unfolding choices_groups by blast
  then have "fst (main e a) = Inl (SysExit 1) \<and> out (snd (main e a)) = []"
  proof cases
    case 1
    have g: "fst (getFileId e a auth_global (fileurl_of ?rel) s) = Inl (SysExit 1)"
      by (rule getFileId_refused(1) [OF assms(3) nok])
    show ?thesis
      by (simp add: m dispatch_internal_link [OF 1] fst_and_then_Inl [OF g] getFileId_out s)
  next
    case 2
    have g: "fst (getFileId e a auth_global (fileurl_of ?rel) s) = Inl (SysExit 1)"
      by (rule getFileId_refused(1) [OF assms(3) nok])
    show ?thesis
      by (simp add: m dispatch_html_link [OF 2] fst_and_then_Inl [OF g] getFileId_out s)
  next
    case 3
    let ?s = "debug a (runner @ ascii '' locking...'') s"
    have g: "fst (lockOrUnlock e a (ascii ''lock'') auth_global (fileurl_of ?rel) ?s) = Inl (SysExit 1)"
      by (rule lockOrUnlock_refused(1) [OF bind_method_lock assms(3) nok])
    show ?thesis
      by (simp add: m dispatch_lock [OF 3] fst_and_then_Inl [OF g] lockOrUnlock_out s)
  next
    case 4
    let ?s = "debug a (runner @ ascii '' unlocking...'') s"
    have g: "fst (lockOrUnlock e a (ascii ''unlock'') auth_global (fileurl_of ?rel) ?s) = Inl (SysExit 1)"
      by (rule lockOrUnlock_refused(1) [OF bind_method_unlock assms(3) nok])
    show ?thesis
      by (simp add: m dispatch_unlock [OF 4] fst_and_then_Inl [OF g] lockOrUnlock_out s)
  next
    case 5
    let ?s = "debug a (runner @ ascii '' quick albuming...'') s"
    have g: "fst (sharePath e a auth_global (ascii ''/'' @ ?rel) ?s) = Inl (SysExit 1)"
      by (rule sharePath_refused [OF assms(3) nok])
    show ?thesis
      by (simp add: m dispatch_quick_album [OF 5] fst_and_then_Inl [OF g] sharePath_out s)
  qed
  then show "fst (main e a) = Inl (SysExit 1)" and "out (snd (main e a)) = []"
    by simp_all
qed

lemma accepted_lock_succeeds:
  assumes "os_path_exists e (arg_path a)"
    and "arg_action a \<in> set [ascii ''l'', ascii ''lock'', ascii ''u'', ascii ''unlock'']"
    and "\<And>req. send e req = Inr r"
    and "200 \<le> status_code r" "status_code r < 400"
  shows "fst (main e a) = Inr ()" and "out (snd (main e a)) = []"
proof -
  let ?rel = "relativePathOnly (os_path_realpath e (arg_path a))"
  obtain s where m: "main e a = dispatch e a ?rel (fileurl_of ?rel) s" and s: "out s = []"
    using main_proceeds [OF assms(1)] by blast
  have ok: "ok r" using assms(4,5) by (simp add: ok_def)
  consider "arg_action a \<in> set [ascii ''l'', ascii ''lock'']"
    | "arg_action a \<in> set [ascii ''u'', ascii ''unlock'']"
    using assms(2) by auto
  then have "fst (main e a) = Inr () \<and> out (snd (main e a)) = []"
  proof cases
    case 1
    let ?s = "debug a (runner @ ascii '' locking...'') s"
    have g: "fst (lockOrUnlock e a (ascii ''lock'') auth_global (fileurl_of ?rel) ?s) = Inr ()"
      by (rule lockOrUnlock_accepted [OF bind_method_lock assms(3) ok])
    show ?thesis
      by (simp add: m dispatch_lock [OF 1] fst_and_then [OF g] lockOrUnlock_out s)
  next
    case 2
    let ?s = "debug a (runner @ ascii '' unlocking...'') s"
    have g: "fst (lockOrUnlock e a (ascii ''unlock'') auth_global (fileurl_of ?rel) ?s) = Inr ()"
      by (rule lockOrUnlock_accepted [OF bind_method_unlock assms(3) ok])
    show ?thesis
      by (simp add: m dispatch_unlock [OF 2] fst_and_then [OF g] lockOrUnlock_out s)
  qed
  then show "fst (main e a) = Inr ()" and "out (snd (main e a)) = []"
    by simp_all
qed

text \<open>
  A lock or unlock request answered with a client or server error (400 to 599, such as
  423 for a path that is locked already) ends the process with exit code 1, nothing on
  standard output, and the diagnostic of line 140 on the error stream.
\<close>

lemma lock_failure_is_fatal:
  assumes "os_path_exists e (arg_path a)"
    and "arg_action a \<in> set [ascii ''l'', ascii ''lock''] \<and> act = ascii ''lock'' \<and> meth = ascii ''LOCK''
       \<or> arg_action a \<in> set [ascii ''u'', ascii ''unlock''] \<and> act = ascii ''unlock'' \<and> meth = ascii ''UNLOCK''"
    and "send e (lock_request meth
           (fileurl_of (relativePathOnly (os_path_realpath e (arg_path a))))) = Inr r"
    and "400 \<le> status_code r \<and> status_code r < 600"
  shows "exit_code (fst (main e a)) = 1 \<and> out (snd (main e a)) = []
    \<and> no_entry @ ascii '' '' @ act @ ascii '' failed. Is the Temporary files lock app installed? If attempting to lock, is it already locked by someone/something else? If attempting to unlock, is the path actually locked?''
        \<in> set (err (snd (main e a)))"
proof -
  let ?rel = "relativePathOnly (os_path_realpath e (arg_path a))"
  obtain s where m: "main e a = dispatch e a ?rel (fileurl_of ?rel) s" and s: "out s = []"
    using main_proceeds [OF assms(1)] by blast
  have nok: "\<not> ok r" using assms(4) by (simp add: ok_def)
  from assms(2) show ?thesis
  proof
    assume c: "arg_action a \<in> set [ascii ''l'', ascii ''lock''] \<and> act = ascii ''lock'' \<and> meth = ascii ''LOCK''"
    let ?s = "debug a (runner @ ascii '' locking...'') s"
    note f = lockOrUnlock_refused [OF bind_method_lock, of e "fileurl_of ?rel" r a auth_global ?s]
    have snd1: "send e (lock_request (ascii ''LOCK'') (fileurl_of ?rel)) = Inr r"
      using assms(3) c by simp
    have eq: "main e a = (Inl (SysExit 1), snd (lockOrUnlock e a (ascii ''lock'') auth_global (fileurl_of ?rel) ?s))"
      using c by (simp add: m dispatch_lock fst_and_then_Inl [OF f(1) [OF snd1 nok]] del: set_simps)
    show ?thesis
      using f(2) [OF snd1 nok] c
      by (simp add: eq exit_code_def lockOrUnlock_out s lock_failed_def)
  next
    assume c: "arg_action a \<in> set [ascii ''u'', ascii ''unlock''] \<and> act = ascii ''unlock'' \<and> meth = ascii ''UNLOCK''"
    let ?s = "debug a (runner @ ascii '' unlocking...'') s"
    note f = lockOrUnlock_refused [OF bind_method_unlock, of e "fileurl_of ?rel" r a auth_global ?s]
    have snd1: "send e (lock_request (ascii ''UNLOCK'') (fileurl_of ?rel)) = Inr r"
      using assms(3) c by simp
    have eq: "main e a = (Inl (SysExit 1), snd (lockOrUnlock e a (ascii ''unlock'') auth_global (fileurl_of ?rel) ?s))"
      using c by (simp add: m dispatch_unlock fst_and_then_Inl [OF f(1) [OF snd1 nok]] del: set_simps)
    show ?thesis
      using f(2) [OF snd1 nok] c
      by (simp add: eq exit_code_def lockOrUnlock_out s lock_failed_def)
  qed
qed

lemma lock_failure_is_fatal_at_423:
  "exit_code (fst (main (world True (ascii ''/home/user/Nextcloud/notes.txt'') (answer 423 []))
          (run_args (ascii ''lock'') (ascii ''notes.txt'')))) = 1
   \<and> out (snd (main (world True (ascii ''/home/user/Nextcloud/notes.txt'') (answer 423 []))
          (run_args (ascii ''lock'') (ascii ''notes.txt'')))) = []
   \<and> no_entry @ ascii '' lock failed. Is the Temporary files lock app installed? If attempting to lock, is it already locked by someone/something else? If attempting to unlock, is the path actually locked?''
        \<in> set (err (snd (main (world True (ascii ''/home/user/Nextcloud/notes.txt'') (answer 423 []))
          (run_args (ascii ''lock'') (ascii ''notes.txt'')))))"
  using lock_failure_is_fatal [where e = "world True (ascii ''/home/user/Nextcloud/notes.txt'') (answer 423 [])"
      and a = "run_args (ascii ''lock'') (ascii ''notes.txt'')"
      and r = "\<lparr>status_code = 423, resp_text = []\<rparr>"
      and act = "ascii ''lock''" and meth = "ascii ''LOCK''"]
  by (simp add: world_def run_args_def answer_def) (simp add: ascii_def)

end
